theory Spec2Isabelle
  imports Main "HOL-Library.Sublist" "HOL-Library.Word"
begin

section \<open>Data model of \<^verbatim>\<open>components/chat/terminal-chat.tsx\<close>\<close>

text \<open>
  The file holds one async helper, \<^verbatim>\<open>generateCommandExplanation\<close>, and one React
  function component, \<^verbatim>\<open>TerminalChat\<close>. The component is modelled by a record of
  its \<^verbatim>\<open>useState\<close> values, its refs and its props, by one function per event handler, and
  by one function per \<^verbatim>\<open>useEffect\<close> body and cleanup. Calls to collaborators that live in
  other files (the agent loop, the notification process, the configuration writer) are
  recorded in order in a log, so that ordering properties can be stated.
\<close>

type_synonym Model = string

text \<open>
  Strings that the code only builds, compares and passes on are Isabelle strings, a
  character outside ASCII being written in UTF-8. A text that the code measures or cuts,
  which is the text of the notification, is the list of UTF-16 code units that a JavaScript
  string is; \<open>units\<close> gives the code units of an ASCII string.
\<close>

type_synonym utf16 = "16 word list"

definition units :: "string \<Rightarrow> utf16" where
  "units text = map of_char text"

datatype OverlayModeType =
  Overlay_none | Overlay_history | Overlay_model | Overlay_approval
  | Overlay_help | Overlay_diff | Overlay_mcp

text \<open>The keys of \<^verbatim>\<open>colorsByPolicy\<close>: "suggest", "auto-edit", "full-auto".\<close>

datatype ApprovalPolicy = Policy_suggest | Policy_auto_edit | Policy_full_auto

fun policy_text :: "ApprovalPolicy \<Rightarrow> string" where
  "policy_text Policy_suggest = ''suggest''"
| "policy_text Policy_auto_edit = ''auto-edit''"
| "policy_text Policy_full_auto = ''full-auto''"

datatype role = User | Assistant | System | Tool

text \<open>
  A transcript item (\<^verbatim>\<open>CoreMessage\<close>, plus the \<^verbatim>\<open>id\<close> and \<^verbatim>\<open>type\<close> fields that the
  component adds to the items it creates itself). The text of an item is read through
  \<^verbatim>\<open>getTextContent\<close> of \<^verbatim>\<open>utils/ai.js\<close>, a parameter of the model.
\<close>

record CoreMessage =
  msg_id :: "string option"
  msg_type :: "string option"
  msg_role :: role
  msg_content :: string

text \<open>The fields of \<^verbatim>\<open>AppConfig\<close> that the component reads.\<close>

record AppConfig =
  cfg_model :: Model
  cfg_instructions :: "string option"
  cfg_notify :: bool

text \<open>
  Modelled from the spec: the enumeration \<^verbatim>\<open>ReviewDecision\<close> of
  \<^verbatim>\<open>utils/agent/review.js\<close>, of which the component names only \<^verbatim>\<open>EXPLAIN\<close>.
  The spec lists approve-once, approve-for-session, deny, deny-with-custom-message and
  request-explanation.
\<close>

datatype ReviewDecision =
  Approve_once | Approve_for_session | Deny | Deny_with_custom_message | EXPLAIN

section \<open>\<^verbatim>\<open>generateCommandExplanation\<close>\<close>

text \<open>
  What \<^verbatim>\<open>generateText\<close> (with \<^verbatim>\<open>getLanguageModel\<close>) does with a request is outside the
  file: it either returns a result whose \<^verbatim>\<open>text\<close> is a string, or throws. A thrown value
  is an instance of \<^verbatim>\<open>Error\<close> with its message and, where it has a property \<^verbatim>\<open>status\<close>
  of type number, that status (\<open>None\<close> where the property is absent or not a number), or
  it is some other value. A status is modelled as an integer.
\<close>

datatype thrown = JsError string "int option" | NonError

datatype generated = Returns string | Throws thrown

type_synonym request = "Model \<times> (role \<times> string) list"

definition newline :: string where
  "newline = [CHR 0x0A]"

definition system_prompt :: string where
  "system_prompt = ''You are an expert in shell commands and terminal operations. Your task is to provide detailed, accurate explanations of shell commands that users are considering executing. Break down each part of the command, explain what it does, identify any potential risks or side effects, and explain why someone might want to run it. Be specific about what files or systems will be affected. If the command could potentially be harmful, make sure to clearly highlight those risks.''"

definition user_prompt :: "string \<Rightarrow> string" where
  "user_prompt commandForDisplay =
     ''Please explain this shell command in detail: `'' @ commandForDisplay @ ''`''
     @ newline @ newline
     @ ''Provide a structured explanation that includes:'' @ newline
     @ ''1. A brief overview of what the command does'' @ newline
     @ ''2. A breakdown of each part of the command (flags, arguments, etc.)'' @ newline
     @ ''3. What files, directories, or systems will be affected'' @ newline
     @ ''4. Any potential risks or side effects'' @ newline
     @ ''5. Why someone might want to run this command'' @ newline @ newline
     @ ''Be specific and technical - this explanation will help the user decide whether to approve or reject the command.''"

definition explain_request :: "(string list \<Rightarrow> string) \<Rightarrow> string list \<Rightarrow> Model \<Rightarrow> request" where
  "explain_request formatCommandForDisplay command m =
     (m, [(System, system_prompt), (User, user_prompt (formatCommandForDisplay command))])"

text \<open>
  The \<^verbatim>\<open>try\<close> block: the value it returns (\<open>Inr\<close>) or the value thrown in it (\<open>Inl\<close>).
  \<^verbatim>\<open>result.text || "..."\<close> replaces an empty text.
\<close>

definition explanation_try ::
  "(string list \<Rightarrow> string) \<Rightarrow> (request \<Rightarrow> generated) \<Rightarrow> string list \<Rightarrow> Model \<Rightarrow> thrown + string" where
  "explanation_try formatCommandForDisplay generateText command m =
     (case generateText (explain_request formatCommandForDisplay command m) of
        Throws error \<Rightarrow> Inl error
      | Returns text \<Rightarrow> Inr (if text = [] then ''Unable to generate explanation.'' else text))"

text \<open>The \<^verbatim>\<open>catch\<close> block, which ends in \<^verbatim>\<open>return errorMessage\<close>.\<close>

definition explanation_catch :: "thrown \<Rightarrow> thrown + string" where
  "explanation_catch error =
     (let errorMessage = ''Unable to generate explanation due to an error.'';
          errorMessage =
            (case error of
               NonError \<Rightarrow> errorMessage
             | JsError message status \<Rightarrow>
                 (let errorMessage = ''Unable to generate explanation: '' @ message
                  in case status of
                       None \<Rightarrow> errorMessage
                     | Some st \<Rightarrow>
                         if st = 401 then
                           ''Unable to generate explanation: API key is invalid or expired.''
                         else if st = 429 then
                           ''Unable to generate explanation: Rate limit exceeded. Please try again later.''
                         else if st \<ge> 500 then
                           ''Unable to generate explanation: Service is currently unavailable. Please try again later.''
                         else errorMessage))
      in Inr errorMessage)"

text \<open>
  The promise of the async function: \<open>Inr\<close> the string it resolves with, \<open>Inl\<close> the
  value it would reject with.
\<close>

definition generateCommandExplanation ::
  "(string list \<Rightarrow> string) \<Rightarrow> (request \<Rightarrow> generated) \<Rightarrow> string list \<Rightarrow> Model \<Rightarrow> thrown + string" where
  "generateCommandExplanation formatCommandForDisplay generateText command m =
     (case explanation_try formatCommandForDisplay generateText command m of
        Inr text \<Rightarrow> Inr text
      | Inl error \<Rightarrow> explanation_catch error)"

section \<open>The confirmation bridge \<^verbatim>\<open>getCommandConfirmation\<close>\<close>

text \<open>
  The element \<^verbatim>\<open>TerminalChatToolCallCommand\<close> that is shown as the question: the
  command as displayed and, in the second round, the explanation.
\<close>

record prompt =
  prompt_commandForDisplay :: string
  prompt_explanation :: "string option"

type_synonym ApplyPatchCommand = string

text \<open>What \<^verbatim>\<open>requestConfirmation\<close> resolves with, and what the bridge returns to the engine.\<close>

record ConfirmationResult =
  cr_decision :: ReviewDecision
  cr_customDenyMessage :: "string option"

record CommandConfirmation =
  cc_review :: ReviewDecision
  cc_customDenyMessage :: "string option"
  cc_applyPatch :: "ApplyPatchCommand option"
  cc_explanation :: "string option"

text \<open>
  The bridge suspends at each \<^verbatim>\<open>await\<close>. Its surroundings are the answers that the
  person will give, in order, and the log of the calls the bridge has made.
\<close>

datatype bridge_call =
  RequestConfirmation prompt
  | GenerateCommandExplanation "string list" Model

record bridge_world =
  answers :: "ConfirmationResult list"
  bridge_calls :: "bridge_call list"

text \<open>
  Modelled from the spec: \<^verbatim>\<open>requestConfirmation\<close> of \<^verbatim>\<open>hooks/use-confirmation.js\<close>, the
  confirmation broker's \<open>ask\<close>. It resolves with the person's next answer and waits
  indefinitely (\<open>None\<close>) when there is none.
\<close>

definition requestConfirmation :: "prompt \<Rightarrow> bridge_world \<Rightarrow> ConfirmationResult option \<times> bridge_world" where
  "requestConfirmation p w =
     (case answers w of
        [] \<Rightarrow> (None, w\<lparr>bridge_calls := bridge_calls w @ [RequestConfirmation p]\<rparr>)
      | r # rest \<Rightarrow>
          (Some r, w\<lparr>answers := rest, bridge_calls := bridge_calls w @ [RequestConfirmation p]\<rparr>))"

text \<open>
  The result is \<open>None\<close> when the promise never settles, \<open>Some (Inl e)\<close> when it rejects
  and \<open>Some (Inr c)\<close> when it resolves with \<open>c\<close>. \<open>m\<close> is the model of the render in
  which the engine was constructed.
\<close>

definition getCommandConfirmation ::
  "(string list \<Rightarrow> string) \<Rightarrow> (request \<Rightarrow> generated) \<Rightarrow> Model \<Rightarrow> string list
     \<Rightarrow> ApplyPatchCommand option \<Rightarrow> bridge_world
     \<Rightarrow> (thrown + CommandConfirmation) option \<times> bridge_world" where
  "getCommandConfirmation formatCommandForDisplay generateText m command applyPatch w =
     (let commandForDisplay = formatCommandForDisplay command in
      case requestConfirmation
             \<lparr>prompt_commandForDisplay = commandForDisplay, prompt_explanation = None\<rparr> w of
        (None, w1) \<Rightarrow> (None, w1)
      | (Some first, w1) \<Rightarrow>
          (let review = cr_decision first; customDenyMessage = cr_customDenyMessage first in
           if review = EXPLAIN then
             (let w2 = w1\<lparr>bridge_calls := bridge_calls w1 @ [GenerateCommandExplanation command m]\<rparr> in
              case generateCommandExplanation formatCommandForDisplay generateText command m of
                Inl error \<Rightarrow> (Some (Inl error), w2)
              | Inr explanation \<Rightarrow>
                  (case requestConfirmation
                          \<lparr>prompt_commandForDisplay = commandForDisplay,
                           prompt_explanation = Some explanation\<rparr> w2 of
                     (None, w3) \<Rightarrow> (None, w3)
                   | (Some confirmResult, w3) \<Rightarrow>
                       (Some (Inr \<lparr>cc_review = cr_decision confirmResult,
                                   cc_customDenyMessage = cr_customDenyMessage confirmResult,
                                   cc_applyPatch = applyPatch,
                                   cc_explanation = Some explanation\<rparr>), w3)))
           else
             (Some (Inr \<lparr>cc_review = review, cc_customDenyMessage = customDenyMessage,
                         cc_applyPatch = applyPatch, cc_explanation = None\<rparr>), w1)))"

section \<open>The component \<^verbatim>\<open>TerminalChat\<close>\<close>

text \<open>
  The options an \<^verbatim>\<open>AgentLoop\<close> is constructed with. The callbacks \<^verbatim>\<open>onItem\<close>,
  \<^verbatim>\<open>onLoading\<close> and \<^verbatim>\<open>getCommandConfirmation\<close> are the functions of the same names
  here; \<open>al_sessionId\<close> is the identifier drawn for the engine, under which its
  \<^verbatim>\<open>onItem\<close> saves the rollout.
\<close>

record AgentLoop =
  al_model :: Model
  al_config :: AppConfig
  al_instructions :: "string option"
  al_approvalPolicy :: ApprovalPolicy
  al_additionalWritableRoots :: "string list"
  al_sessionId :: string

text \<open>Calls to collaborators, in the order they are made. An engine is named by its session id.\<close>

datatype call =
  AgentLoop_new AgentLoop
  | AgentLoop_terminate string
  | AgentLoop_cancel string
  | AgentLoop_run string "CoreMessage list"
  | SaveRollout string "CoreMessage list"
  | SaveConfig AppConfig
  | Spawn utf16 "utf16 list"

text \<open>
  The props \<open>config\<close> and \<open>additionalWritableRoots\<close>, the state variables, the refs
  \<open>agentRef\<close> and \<open>prevLoadingRef\<close>, and what React keeps for the effects:
  \<open>agentCleanup\<close> says that the last run of the engine effect returned its cleanup
  function, \<open>handle\<close> that the interval of the last run of the timer effect is live.
  \<open>confirmationPrompt\<close> is the state of the hook \<^verbatim>\<open>useConfirmation\<close>.
  React compares the dependencies of an effect with \<^verbatim>\<open>Object.is\<close>, so that the config
  object and the roots array count by their identity: \<open>config_identity\<close> and
  \<open>roots_identity\<close> number the objects that the parent passes. A new number is a new
  object, also when its contents are equal; the same number with other contents is the
  object changed in place.
  The component is modelled as started without an initial prompt or images, where the
  effect that submits them does nothing; \<^verbatim>\<open>diffText\<close>, which is never set, and the
  effect that starts and closes the MCP manager are left out.
\<close>

record TerminalChat =
  config :: AppConfig
  config_identity :: nat
  additionalWritableRoots :: "string list"
  roots_identity :: nat
  model :: Model
  loading :: bool
  approvalPolicy :: ApprovalPolicy
  thinkingSeconds :: nat
  items :: "CoreMessage list"
  mcpServerStatus :: "(string \<times> bool) list"
  confirmationPrompt :: "prompt option"
  overlayMode :: OverlayModeType
  agentRef :: "AgentLoop option"
  prevLoadingRef :: bool
  agentCleanup :: bool
  handle :: bool
  calls :: "call list"

text \<open>Collaborators that are read, not called for effect.\<close>

record env =
  getTextContent :: "CoreMessage \<Rightarrow> utf16"
  platform :: string
  PWD :: utf16

subsection \<open>The engine effect (lines 233 to 318)\<close>

definition agentLoopEffect :: "string \<Rightarrow> TerminalChat \<Rightarrow> TerminalChat" where
  "agentLoopEffect sessionId s =
     (if confirmationPrompt s \<noteq> None then s\<lparr>agentCleanup := False\<rparr>
      else
        (let s1 = (case agentRef s of
                     None \<Rightarrow> s
                   | Some a \<Rightarrow> s\<lparr>calls := calls s @ [AgentLoop_terminate (al_sessionId a)]\<rparr>);
             a' = \<lparr>al_model = model s, al_config = config s,
                   al_instructions = cfg_instructions (config s),
                   al_approvalPolicy = approvalPolicy s,
                   al_additionalWritableRoots = additionalWritableRoots s,
                   al_sessionId = sessionId\<rparr>
         in s1\<lparr>agentRef := Some a', calls := calls s1 @ [AgentLoop_new a'],
                agentCleanup := True\<rparr>))"

definition agentLoopCleanup :: "TerminalChat \<Rightarrow> TerminalChat" where
  "agentLoopCleanup s =
     (case agentRef s of
        None \<Rightarrow> s
      | Some a \<Rightarrow> s\<lparr>calls := calls s @ [AgentLoop_terminate (al_sessionId a)], agentRef := None\<rparr>)"

subsection \<open>The timer effect (lines 323 to 343)\<close>

definition timerEffect :: "TerminalChat \<Rightarrow> TerminalChat" where
  "timerEffect s =
     (if loading s \<and> confirmationPrompt s = None
      then s\<lparr>thinkingSeconds := 0, handle := True\<rparr>
      else s\<lparr>thinkingSeconds := 0, handle := False\<rparr>)"

definition timerCleanup :: "TerminalChat \<Rightarrow> TerminalChat" where
  "timerCleanup s = s\<lparr>handle := False\<rparr>"

text \<open>The callback of \<^verbatim>\<open>setInterval\<close>, which runs once a second while the interval is live.\<close>

definition tick :: "TerminalChat \<Rightarrow> TerminalChat" where
  "tick s = (if handle s then s\<lparr>thinkingSeconds := thinkingSeconds s + 1\<rparr> else s)"

subsection \<open>The notification effect (lines 346 to 378)\<close>

definition dquote :: utf16 where
  "dquote = [0x22]"

definition backslash :: utf16 where
  "backslash = [0x5C]"

text \<open>\<^verbatim>\<open>text.replace(/\n/g, " ").slice(0, 100)\<close>\<close>

definition preview_of :: "utf16 \<Rightarrow> utf16" where
  "preview_of text = take 100 (map (\<lambda>c. if c = 0x0A then 0x20 else c) text)"

text \<open>\<^verbatim>\<open>preview.replace(/"/g, '\\"')\<close>\<close>

definition safePreview_of :: "utf16 \<Rightarrow> utf16" where
  "safePreview_of preview = concat (map (\<lambda>c. if c = 0x22 then backslash @ dquote else [c]) preview)"

definition notification_script :: "utf16 \<Rightarrow> utf16 \<Rightarrow> utf16 \<Rightarrow> utf16" where
  "notification_script safePreview title cwd =
     units ''display notification '' @ dquote @ safePreview @ dquote
     @ units '' with title '' @ dquote @ title @ dquote
     @ units '' subtitle '' @ dquote @ cwd @ dquote
     @ units '' sound name '' @ dquote @ units ''Ping'' @ dquote"

definition notifyEffect :: "env \<Rightarrow> TerminalChat \<Rightarrow> TerminalChat" where
  "notifyEffect e s =
     (if \<not> cfg_notify (config s) then s\<lparr>prevLoadingRef := loading s\<rparr>
      else
        (let s1 =
           (if prevLoadingRef s \<and> \<not> loading s \<and> confirmationPrompt s = None
                \<and> length (items s) > 0
            then
              (if platform e = ''darwin'' then
                 (let assistantMessages = filter (\<lambda>i. msg_role i = Assistant) (items s) in
                  if assistantMessages = [] then s
                  else
                    (let text = getTextContent e (last assistantMessages);
                         preview = preview_of text;
                         safePreview = safePreview_of preview;
                         title = units ''Codex CLI'';
                         cwd = PWD e
                     in s\<lparr>calls := calls s @
                            [Spawn (units ''osascript'')
                               [units ''-e'', notification_script safePreview title cwd]]\<rparr>))
               else s)
            else s)
         in s1\<lparr>prevLoadingRef := loading s\<rparr>))"

subsection \<open>Event handlers\<close>

text \<open>\<^verbatim>\<open>Date.now()\<close> is a parameter \<open>now\<close> of a handler; a template literal prints it in decimal.\<close>

fun decimal :: "nat \<Rightarrow> string" where
  "decimal n = (if n < 10 then [char_of (48 + n)] else decimal (n div 10) @ [char_of (48 + n mod 10)])"

declare decimal.simps [simp del]

text \<open>
  \<^verbatim>\<open>onItem\<close>, the engine's output callback; \<open>sessionId\<close> is the one of the engine that
  calls. \<^verbatim>\<open>onLoading\<close> is \<^verbatim>\<open>setLoading\<close>.
\<close>

definition onItem :: "string \<Rightarrow> CoreMessage \<Rightarrow> TerminalChat \<Rightarrow> TerminalChat" where
  "onItem sessionId item s =
     (let updated = items s @ [item]
      in s\<lparr>items := updated, calls := calls s @ [SaveRollout sessionId updated]\<rparr>)"

definition onLoading :: "bool \<Rightarrow> TerminalChat \<Rightarrow> TerminalChat" where
  "onLoading b s = s\<lparr>loading := b\<rparr>"

text \<open>
  \<^verbatim>\<open>handleCompact\<close> sets the loading flag, awaits \<^verbatim>\<open>generateCompactSummary(items, model)\<close>
  and goes on when that settles: with the summary (\<open>Inr\<close>) or with the text of the value
  thrown (\<open>Inl\<close>).
\<close>

definition handleCompact_begin :: "TerminalChat \<Rightarrow> TerminalChat" where
  "handleCompact_begin s = s\<lparr>loading := True\<rparr>"

definition handleCompact_settled :: "string + string \<Rightarrow> nat \<Rightarrow> TerminalChat \<Rightarrow> TerminalChat" where
  "handleCompact_settled outcome now s =
     (case outcome of
        Inr summary \<Rightarrow>
          s\<lparr>items := [\<lparr>msg_id = None, msg_type = None, msg_role = Assistant,
                       msg_content = summary\<rparr>],
            loading := False\<rparr>
      | Inl err \<Rightarrow>
          s\<lparr>items := items s @
                [\<lparr>msg_id = Some (''compact-error-'' @ decimal now), msg_type = None,
                  msg_role = System, msg_content = ''Failed to compact context: '' @ err\<rparr>],
            loading := False\<rparr>)"

definition handleMCPCommand :: "(string \<times> bool) list \<Rightarrow> TerminalChat \<Rightarrow> TerminalChat" where
  "handleMCPCommand status s = s\<lparr>mcpServerStatus := status, overlayMode := Overlay_mcp\<rparr>"

definition openOverlay :: "TerminalChat \<Rightarrow> TerminalChat" where
  "openOverlay s = s\<lparr>overlayMode := Overlay_history\<rparr>"

definition openModelOverlay :: "TerminalChat \<Rightarrow> TerminalChat" where
  "openModelOverlay s = s\<lparr>overlayMode := Overlay_model\<rparr>"

definition openApprovalOverlay :: "TerminalChat \<Rightarrow> TerminalChat" where
  "openApprovalOverlay s = s\<lparr>overlayMode := Overlay_approval\<rparr>"

definition openHelpOverlay :: "TerminalChat \<Rightarrow> TerminalChat" where
  "openHelpOverlay s = s\<lparr>overlayMode := Overlay_help\<rparr>"

text \<open>The dash of the text shown outside a repository is U+2014, here in UTF-8.\<close>

definition not_a_repository :: string where
  "not_a_repository =
     ''`/diff` '' @ [CHR 0xE2, CHR 0x80, CHR 0x94] @ '' _not inside a git repository_''"

definition openDiffOverlay :: "bool \<Rightarrow> string \<Rightarrow> nat \<Rightarrow> TerminalChat \<Rightarrow> TerminalChat" where
  "openDiffOverlay isGitRepo diff now s =
     (let text = (if isGitRepo then diff else not_a_repository)
      in s\<lparr>items := items s @
               [\<lparr>msg_id = Some (''diff-'' @ decimal now), msg_type = Some ''message'',
                 msg_role = System, msg_content = text\<rparr>],
           overlayMode := Overlay_none\<rparr>)"

text \<open>The sign that opens the interruption notice is U+23F9 U+FE0F, here in UTF-8.\<close>

definition interrupted_text :: string where
  "interrupted_text =
     [CHR 0xE2, CHR 0x8F, CHR 0xB9, CHR 0xEF, CHR 0xB8, CHR 0x8F]
     @ ''  Execution interrupted by user. You can continue typing.''"

definition interruptAgent :: "nat \<Rightarrow> TerminalChat \<Rightarrow> TerminalChat" where
  "interruptAgent now s =
     (case agentRef s of
        None \<Rightarrow> s
      | Some agent \<Rightarrow>
          s\<lparr>calls := calls s @ [AgentLoop_cancel (al_sessionId agent)],
            loading := False,
            items := items s @
              [\<lparr>msg_id = Some (''interrupt-'' @ decimal now), msg_type = None,
                msg_role = System, msg_content = interrupted_text\<rparr>]\<rparr>)"

text \<open>
  \<^verbatim>\<open>submitInput\<close> calls \<^verbatim>\<open>agent.run\<close> without a check: the input surface that owns the
  handler is rendered only when there is an engine.
\<close>

definition submitInput :: "CoreMessage list \<Rightarrow> TerminalChat \<Rightarrow> TerminalChat" where
  "submitInput inputs s =
     (let s1 = s\<lparr>items := items s @ inputs\<rparr>
      in case agentRef s of
           None \<Rightarrow> s1
         | Some agent \<Rightarrow> s1\<lparr>calls := calls s @ [AgentLoop_run (al_sessionId agent) inputs]\<rparr>)"

definition ModelOverlay_onSelect :: "Model \<Rightarrow> nat \<Rightarrow> TerminalChat \<Rightarrow> TerminalChat" where
  "ModelOverlay_onSelect newModel now s =
     (let s1 = (case agentRef s of
                  None \<Rightarrow> s
                | Some agent \<Rightarrow> s\<lparr>calls := calls s @ [AgentLoop_cancel (al_sessionId agent)]\<rparr>)
      in s1\<lparr>loading := False,
            model := newModel,
            calls := calls s1 @ [SaveConfig ((config s)\<lparr>cfg_model := newModel\<rparr>)],
            items := items s @
              [\<lparr>msg_id = Some (''switch-model-'' @ decimal now), msg_type = None,
                msg_role = System, msg_content = ''Switched model to '' @ newModel\<rparr>],
            overlayMode := Overlay_none\<rparr>)"

definition ApprovalModeOverlay_onSelect :: "ApprovalPolicy \<Rightarrow> nat \<Rightarrow> TerminalChat \<Rightarrow> TerminalChat" where
  "ApprovalModeOverlay_onSelect newMode now s =
     (if newMode = approvalPolicy s then s
      else
        s\<lparr>approvalPolicy := newMode,
          agentRef := (case agentRef s of
                         None \<Rightarrow> None
                       | Some agent \<Rightarrow> Some (agent\<lparr>al_approvalPolicy := newMode\<rparr>)),
          items := items s @
            [\<lparr>msg_id = Some (''switch-approval-'' @ decimal now), msg_type = None,
              msg_role = System,
              msg_content = ''Switched approval mode to '' @ policy_text newMode\<rparr>],
          overlayMode := Overlay_none\<rparr>)"

definition onExit :: "TerminalChat \<Rightarrow> TerminalChat" where
  "onExit s = s\<lparr>overlayMode := Overlay_none\<rparr>"

text \<open>
  Modelled from the spec: the state of the hook \<^verbatim>\<open>useConfirmation\<close> of
  \<^verbatim>\<open>hooks/use-confirmation.js\<close>. The broker's \<open>ask\<close> makes the question the pending one,
  its \<open>answer\<close> clears the pending question.
\<close>

definition broker_ask :: "prompt \<Rightarrow> TerminalChat \<Rightarrow> TerminalChat" where
  "broker_ask p s = s\<lparr>confirmationPrompt := Some p\<rparr>"

definition broker_answer :: "TerminalChat \<Rightarrow> TerminalChat" where
  "broker_answer s = s\<lparr>confirmationPrompt := None\<rparr>"

text \<open>The parent renders the component again with these props.\<close>

definition setProps ::
  "nat \<Rightarrow> AppConfig \<Rightarrow> nat \<Rightarrow> string list \<Rightarrow> TerminalChat \<Rightarrow> TerminalChat" where
  "setProps cfg_id cfg roots_id roots s =
     s\<lparr>config := cfg, config_identity := cfg_id,
       additionalWritableRoots := roots, roots_identity := roots_id\<rparr>"

text \<open>
  The component hands two of its state setters to its children as they are:
  \<^verbatim>\<open>setOverlayMode\<close> to \<^verbatim>\<open>TerminalMessageHistory\<close> and \<^verbatim>\<open>setItems\<close> to
  \<^verbatim>\<open>TerminalChatInput\<close>. What the children do with them is outside the file; a call
  sets the mode, or the transcript, to the value given (for an updater function, to the
  value it returns).
\<close>

definition setOverlayMode :: "OverlayModeType \<Rightarrow> TerminalChat \<Rightarrow> TerminalChat" where
  "setOverlayMode m s = s\<lparr>overlayMode := m\<rparr>"

definition setItems :: "CoreMessage list \<Rightarrow> TerminalChat \<Rightarrow> TerminalChat" where
  "setItems updated s = s\<lparr>items := updated\<rparr>"

subsection \<open>Rendering: which handler can be called, and which effects run\<close>

datatype action =
  Props nat AppConfig nat "string list"
  | OnItem string CoreMessage
  | OnLoading bool
  | Ask prompt
  | Answer
  | Tick
  | OpenOverlay
  | OpenModelOverlay
  | OpenApprovalOverlay
  | OpenHelpOverlay
  | OpenDiffOverlay bool string nat
  | OpenMCPOverlay "(string \<times> bool) list"
  | OnCompact
  | CompactSettled "string + string" nat
  | InterruptAgent nat
  | SubmitInput "CoreMessage list"
  | SelectModel Model nat
  | SelectApproval ApprovalPolicy nat
  | OnExit
  | SetOverlayMode OverlayModeType
  | SetItems "CoreMessage list"

fun handler :: "action \<Rightarrow> TerminalChat \<Rightarrow> TerminalChat" where
  "handler (Props cfg_id cfg roots_id roots) s = setProps cfg_id cfg roots_id roots s"
| "handler (OnItem sessionId item) s = onItem sessionId item s"
| "handler (OnLoading b) s = onLoading b s"
| "handler (Ask p) s = broker_ask p s"
| "handler Answer s = broker_answer s"
| "handler Tick s = tick s"
| "handler OpenOverlay s = openOverlay s"
| "handler OpenModelOverlay s = openModelOverlay s"
| "handler OpenApprovalOverlay s = openApprovalOverlay s"
| "handler OpenHelpOverlay s = openHelpOverlay s"
| "handler (OpenDiffOverlay isGitRepo d now) s = openDiffOverlay isGitRepo d now s"
| "handler (OpenMCPOverlay status) s = handleMCPCommand status s"
| "handler OnCompact s = handleCompact_begin s"
| "handler (CompactSettled outcome now) s = handleCompact_settled outcome now s"
| "handler (InterruptAgent now) s = interruptAgent now s"
| "handler (SubmitInput inputs) s = submitInput inputs s"
| "handler (SelectModel newModel now) s = ModelOverlay_onSelect newModel now s"
| "handler (SelectApproval newMode now) s = ApprovalModeOverlay_onSelect newMode now s"
| "handler OnExit s = onExit s"
| "handler (SetOverlayMode m) s = setOverlayMode m s"
| "handler (SetItems updated) s = setItems updated s"

text \<open>
  The returned JSX decides which handlers exist. \<^verbatim>\<open>TerminalChatInput\<close>, which receives
  the open actions, \<^verbatim>\<open>onCompact\<close>, \<^verbatim>\<open>interruptAgent\<close>, \<^verbatim>\<open>submitInput\<close> and
  \<^verbatim>\<open>submitConfirmation\<close>, is rendered when the overlay mode is "none" and there is an
  engine, and it also receives \<^verbatim>\<open>setItems\<close>; each overlay is rendered in its own mode,
  and only the model and the approval overlay have an \<^verbatim>\<open>onSelect\<close>.
  \<^verbatim>\<open>TerminalMessageHistory\<close>, which receives \<^verbatim>\<open>setOverlayMode\<close>, is rendered whenever
  there is an engine, in every overlay mode. The callbacks of an engine and the props can
  arrive at any time; a question is asked only when none is pending (the broker holds one
  question), and the interval calls back only while it is live.
\<close>

definition input_rendered :: "TerminalChat \<Rightarrow> bool" where
  "input_rendered s = (overlayMode s = Overlay_none \<and> agentRef s \<noteq> None)"

fun available :: "action \<Rightarrow> TerminalChat \<Rightarrow> bool" where
  "available (Props cfg_id cfg roots_id roots) s = True"
| "available (OnItem sessionId item) s = True"
| "available (OnLoading b) s = True"
| "available (Ask p) s = (confirmationPrompt s = None)"
| "available Answer s = (input_rendered s \<and> confirmationPrompt s \<noteq> None)"
| "available Tick s = handle s"
| "available OpenOverlay s = input_rendered s"
| "available OpenModelOverlay s = input_rendered s"
| "available OpenApprovalOverlay s = input_rendered s"
| "available OpenHelpOverlay s = input_rendered s"
| "available (OpenDiffOverlay isGitRepo d now) s = input_rendered s"
| "available (OpenMCPOverlay status) s = input_rendered s"
| "available OnCompact s = input_rendered s"
| "available (CompactSettled outcome now) s = True"
| "available (InterruptAgent now) s = input_rendered s"
| "available (SubmitInput inputs) s = input_rendered s"
| "available (SelectModel newModel now) s = (overlayMode s = Overlay_model)"
| "available (SelectApproval newMode now) s = (overlayMode s = Overlay_approval)"
| "available OnExit s = (overlayMode s \<noteq> Overlay_none)"
| "available (SetOverlayMode m) s = (agentRef s \<noteq> None)"
| "available (SetItems updated) s = input_rendered s"

text \<open>
  After a render React runs the effects whose dependencies changed: first the cleanup
  functions that the previous runs of these effects returned, then the effect bodies, both
  in the order of declaration. The dependencies are
  \<^verbatim>\<open>[model, config, requestConfirmation, additionalWritableRoots]\<close> for the engine effect
  (\<^verbatim>\<open>requestConfirmation\<close> is the hook's function and does not change),
  \<^verbatim>\<open>[loading, confirmationPrompt]\<close> for the timer effect and
  \<^verbatim>\<open>[notify, loading, confirmationPrompt, items, PWD]\<close> for the notification effect
  (\<^verbatim>\<open>PWD\<close> is computed once). The model, the loading flag and \<^verbatim>\<open>notify\<close> are
  primitive values; the config and the roots count by identity. The pending question and
  the transcript are compared by value: a question is only ever replaced by none or none by
  a question, and the notification effect, the only one that depends on the transcript,
  changes nothing when it runs again with the loading flag that it remembers (lemma
  \<open>notifyEffect_again\<close>), so that running it for a new array of equal contents makes no
  difference. \<open>old\<close> is the state of the previous render, \<open>new\<close> the state that is
  rendered.
\<close>

definition agent_deps :: "TerminalChat \<Rightarrow> Model \<times> nat \<times> nat" where
  "agent_deps s = (model s, config_identity s, roots_identity s)"

definition timer_deps :: "TerminalChat \<Rightarrow> bool \<times> prompt option" where
  "timer_deps s = (loading s, confirmationPrompt s)"

definition notify_deps :: "TerminalChat \<Rightarrow> bool \<times> bool \<times> prompt option \<times> CoreMessage list" where
  "notify_deps s = (cfg_notify (config s), loading s, confirmationPrompt s, items s)"

definition commit :: "env \<Rightarrow> string \<Rightarrow> TerminalChat \<Rightarrow> TerminalChat \<Rightarrow> TerminalChat" where
  "commit e sessionId old new =
     (let s1 = (if agent_deps old \<noteq> agent_deps new \<and> agentCleanup new
                then agentLoopCleanup new else new);
          s2 = (if timer_deps old \<noteq> timer_deps new then timerCleanup s1 else s1);
          s3 = (if agent_deps old \<noteq> agent_deps new then agentLoopEffect sessionId s2 else s2);
          s4 = (if timer_deps old \<noteq> timer_deps new then timerEffect s3 else s3);
          s5 = (if notify_deps old \<noteq> notify_deps new then notifyEffect e s4 else s4)
      in s5)"

text \<open>
  One event: the handler runs, the component renders and the effects run. \<open>sessionId\<close>
  is what \<^verbatim>\<open>crypto.randomUUID()\<close> returns if the engine effect constructs an engine.
\<close>

definition step :: "env \<Rightarrow> string \<Rightarrow> action \<Rightarrow> TerminalChat \<Rightarrow> TerminalChat option" where
  "step e sessionId a s =
     (if available a s then Some (commit e sessionId s (handler a s)) else None)"

text \<open>The first render: the initial state, then every effect body.\<close>

definition initial :: "AppConfig \<Rightarrow> ApprovalPolicy \<Rightarrow> string list \<Rightarrow> TerminalChat" where
  "initial cfg initialApprovalPolicy roots =
     \<lparr>config = cfg, config_identity = 0, additionalWritableRoots = roots,
      roots_identity = 0, model = cfg_model cfg,
      loading = False, approvalPolicy = initialApprovalPolicy, thinkingSeconds = 0,
      items = [], mcpServerStatus = [], confirmationPrompt = None,
      overlayMode = Overlay_none, agentRef = None, prevLoadingRef = False,
      agentCleanup = False, handle = False, calls = []\<rparr>"

definition mount :: "env \<Rightarrow> string \<Rightarrow> AppConfig \<Rightarrow> ApprovalPolicy \<Rightarrow> string list \<Rightarrow> TerminalChat" where
  "mount e sessionId cfg initialApprovalPolicy roots =
     notifyEffect e (timerEffect (agentLoopEffect sessionId (initial cfg initialApprovalPolicy roots)))"

definition unmount :: "TerminalChat \<Rightarrow> TerminalChat" where
  "unmount s = timerCleanup (if agentCleanup s then agentLoopCleanup s else s)"

text \<open>A run of events, each with the session id drawn for it; \<open>None\<close> when one is not available.\<close>

fun run :: "env \<Rightarrow> (string \<times> action) list \<Rightarrow> TerminalChat \<Rightarrow> TerminalChat option" where
  "run e [] s = Some s"
| "run e ((sessionId, a) # rest) s =
     (case step e sessionId a s of None \<Rightarrow> None | Some s' \<Rightarrow> run e rest s')"

section \<open>Reading the log of calls\<close>

text \<open>Calls on an engine, calls of the notification process, constructions and teardowns.\<close>

fun engine_call :: "call \<Rightarrow> bool" where
  "engine_call (AgentLoop_new a) = True"
| "engine_call (AgentLoop_terminate sessionId) = True"
| "engine_call (AgentLoop_cancel sessionId) = True"
| "engine_call (AgentLoop_run sessionId inputs) = True"
| "engine_call (SaveRollout sessionId updated) = False"
| "engine_call (SaveConfig cfg) = False"
| "engine_call (Spawn cmd args) = False"

fun spawn_call :: "call \<Rightarrow> bool" where
  "spawn_call (Spawn cmd args) = True"
| "spawn_call (AgentLoop_new a) = False"
| "spawn_call (AgentLoop_terminate sessionId) = False"
| "spawn_call (AgentLoop_cancel sessionId) = False"
| "spawn_call (AgentLoop_run sessionId inputs) = False"
| "spawn_call (SaveRollout sessionId updated) = False"
| "spawn_call (SaveConfig cfg) = False"

fun new_call :: "call \<Rightarrow> bool" where
  "new_call (AgentLoop_new a) = True"
| "new_call (AgentLoop_terminate sessionId) = False"
| "new_call (AgentLoop_cancel sessionId) = False"
| "new_call (AgentLoop_run sessionId inputs) = False"
| "new_call (SaveRollout sessionId updated) = False"
| "new_call (SaveConfig cfg) = False"
| "new_call (Spawn cmd args) = False"

fun terminate_call :: "call \<Rightarrow> bool" where
  "terminate_call (AgentLoop_terminate sessionId) = True"
| "terminate_call (AgentLoop_new a) = False"
| "terminate_call (AgentLoop_cancel sessionId) = False"
| "terminate_call (AgentLoop_run sessionId inputs) = False"
| "terminate_call (SaveRollout sessionId updated) = False"
| "terminate_call (SaveConfig cfg) = False"
| "terminate_call (Spawn cmd args) = False"

text \<open>The numbers of engines constructed and of engines torn down so far.\<close>

definition constructed :: "TerminalChat \<Rightarrow> nat" where
  "constructed s = length (filter new_call (calls s))"

definition torn_down :: "TerminalChat \<Rightarrow> nat" where
  "torn_down s = length (filter terminate_call (calls s))"

section \<open>Notions used in the statements\<close>

text \<open>A transcript item without an id, and the notices that the handlers append.\<close>

definition message :: "role \<Rightarrow> string \<Rightarrow> CoreMessage" where
  "message r text = \<lparr>msg_id = None, msg_type = None, msg_role = r, msg_content = text\<rparr>"

definition notice :: "string \<Rightarrow> nat \<Rightarrow> string \<Rightarrow> CoreMessage" where
  "notice kind now text =
     \<lparr>msg_id = Some (kind @ ''-'' @ decimal now), msg_type = None, msg_role = System,
      msg_content = text\<rparr>"

text \<open>The engine that the engine effect constructs in a render of \<open>s\<close>.\<close>

definition new_engine :: "string \<Rightarrow> TerminalChat \<Rightarrow> AgentLoop" where
  "new_engine sessionId s =
     \<lparr>al_model = model s, al_config = config s,
      al_instructions = cfg_instructions (config s),
      al_approvalPolicy = approvalPolicy s,
      al_additionalWritableRoots = additionalWritableRoots s,
      al_sessionId = sessionId\<rparr>"

text \<open>The call that hands the preview of the last assistant item to the notification process.\<close>

definition notification :: "env \<Rightarrow> CoreMessage list \<Rightarrow> call" where
  "notification e transcript =
     Spawn (units ''osascript'')
       [units ''-e'',
        notification_script
          (safePreview_of (preview_of (getTextContent e
             (last (filter (\<lambda>i. msg_role i = Assistant) transcript)))))
          (units ''Codex CLI'') (PWD e)]"

text \<open>
  The conditions under which the notification effect makes that call, \<open>was_loading\<close>
  being the loading flag it remembers from its previous run.
\<close>

definition notification_due :: "env \<Rightarrow> bool \<Rightarrow> TerminalChat \<Rightarrow> bool" where
  "notification_due e was_loading s =
     (cfg_notify (config s) \<and> was_loading \<and> \<not> loading s \<and> confirmationPrompt s = None
      \<and> platform e = ''darwin'' \<and> filter (\<lambda>i. msg_role i = Assistant) (items s) \<noteq> [])"

text \<open>The calls of a render, in order: teardown, construction, notification.\<close>

definition teardown_calls :: "TerminalChat \<Rightarrow> TerminalChat \<Rightarrow> call list" where
  "teardown_calls old new =
     (if agent_deps old \<noteq> agent_deps new
         \<and> (agentCleanup new \<or> confirmationPrompt new = None)
      then (case agentRef new of None \<Rightarrow> [] | Some a \<Rightarrow> [AgentLoop_terminate (al_sessionId a)])
      else [])"

definition construction_calls :: "string \<Rightarrow> TerminalChat \<Rightarrow> TerminalChat \<Rightarrow> call list" where
  "construction_calls u old new =
     (if agent_deps old \<noteq> agent_deps new \<and> confirmationPrompt new = None
      then [AgentLoop_new (new_engine u new)] else [])"

definition notification_calls :: "env \<Rightarrow> TerminalChat \<Rightarrow> TerminalChat \<Rightarrow> call list" where
  "notification_calls e old new =
     (if notify_deps old \<noteq> notify_deps new \<and> notification_due e (prevLoadingRef new) new
      then [notification e (items new)] else [])"

text \<open>
  The timer runs exactly while the agent is busy and nobody is asked, and the counter is
  zero while it does not run.
\<close>

definition busy :: "TerminalChat \<Rightarrow> bool" where
  "busy s = (loading s \<and> confirmationPrompt s = None)"

definition timer_ok :: "TerminalChat \<Rightarrow> bool" where
  "timer_ok s = (handle s = busy s \<and> (busy s \<or> thinkingSeconds s = 0))"

text \<open>
  The engine keeps its handle exactly when the last run of the engine effect constructed
  it (and returned the cleanup function).
\<close>

definition engine_ok :: "TerminalChat \<Rightarrow> bool" where
  "engine_ok s = (agentCleanup s = (agentRef s \<noteq> None))"

text \<open>Every engine but the live one has been torn down.\<close>

definition balanced :: "TerminalChat \<Rightarrow> bool" where
  "balanced s = (constructed s = torn_down s + (if agentRef s = None then 0 else 1))"

text \<open>The events that are actions on the overlay mode.\<close>

fun overlay_action :: "action \<Rightarrow> bool" where
  "overlay_action OnExit = True"
| "overlay_action (SelectModel newModel now) = True"
| "overlay_action (SelectApproval newMode now) = True"
| "overlay_action OpenOverlay = True"
| "overlay_action OpenModelOverlay = True"
| "overlay_action OpenApprovalOverlay = True"
| "overlay_action OpenHelpOverlay = True"
| "overlay_action (OpenMCPOverlay status) = True"
| "overlay_action (OpenDiffOverlay isGitRepo d now) = True"
| "overlay_action (SetOverlayMode m) = True"
| "overlay_action (Props cfg_id cfg roots_id roots) = False"
| "overlay_action (OnItem sessionId item) = False"
| "overlay_action (OnLoading b) = False"
| "overlay_action (Ask p) = False"
| "overlay_action Answer = False"
| "overlay_action Tick = False"
| "overlay_action OnCompact = False"
| "overlay_action (CompactSettled outcome now) = False"
| "overlay_action (InterruptAgent now) = False"
| "overlay_action (SubmitInput inputs) = False"
| "overlay_action (SetItems updated) = False"

text \<open>
  The state that the render after an event shows, and passes to the children, before the
  effects of that render have run.
\<close>

definition rendered :: "action \<Rightarrow> TerminalChat \<Rightarrow> TerminalChat" where
  "rendered a s = handler a s"

text \<open>What is pending, which engine is live, and the calls made on engines.\<close>

definition engine_view :: "TerminalChat \<Rightarrow> prompt option \<times> string option \<times> call list" where
  "engine_view s =
     (confirmationPrompt s, map_option al_sessionId (agentRef s), filter engine_call (calls s))"

section \<open>Sample values for the closed theorems\<close>

definition sample_env :: env where
  "sample_env =
     \<lparr>getTextContent = (\<lambda>item. units (msg_content item)), platform = ''darwin'',
      PWD = units ''~/project''\<rparr>"

definition sample_config :: AppConfig where
  "sample_config = \<lparr>cfg_model = ''o4-mini'', cfg_instructions = None, cfg_notify = True\<rparr>"

definition sample_prompt :: prompt where
  "sample_prompt = \<lparr>prompt_commandForDisplay = ''rm -rf build'', prompt_explanation = None\<rparr>"

definition sample_mount :: TerminalChat where
  "sample_mount = mount sample_env ''session-1'' sample_config Policy_suggest []"

definition answer :: "ReviewDecision \<Rightarrow> string option \<Rightarrow> ConfirmationResult" where
  "answer d msg = \<lparr>cr_decision = d, cr_customDenyMessage = msg\<rparr>"

definition sample_world :: "ConfirmationResult list \<Rightarrow> bridge_world" where
  "sample_world as = \<lparr>answers = as, bridge_calls = []\<rparr>"

text \<open>The sample component with the model, the approval and the help overlay open.\<close>

definition model_open :: TerminalChat where
  "model_open = the (step sample_env ''session-2'' OpenModelOverlay sample_mount)"

definition approval_open :: TerminalChat where
  "approval_open = the (step sample_env ''session-2'' OpenApprovalOverlay sample_mount)"

definition help_open :: TerminalChat where
  "help_open = the (step sample_env ''session-2'' OpenHelpOverlay sample_mount)"

text \<open>A request that keeps the engine busy for two seconds.\<close>

definition busy_run :: "(string \<times> action) list" where
  "busy_run =
     [(''session-2'', SubmitInput [message User ''clean the build'']),
      (''session-3'', OnLoading True),
      (''session-4'', Tick),
      (''session-5'', Tick)]"

definition busy_state :: TerminalChat where
  "busy_state = the (run sample_env busy_run sample_mount)"

text \<open>
  A request that the engine answers, and one that it leaves without an assistant item;
  each ends with the engine reporting that it is idle.
\<close>

definition quoted_reply :: string where
  "quoted_reply =
     ''Done.'' @ newline @ ''Say '' @ [CHR 0x22] @ ''hi'' @ [CHR 0x22] @ replicate 120 (CHR ''x'')"

definition answered_run :: "(string \<times> action) list" where
  "answered_run =
     [(''session-2'', SubmitInput [message User ''clean the build'']),
      (''session-3'', OnLoading True),
      (''session-4'', OnItem ''session-1'' (message Assistant quoted_reply))]"

definition answered_state :: TerminalChat where
  "answered_state = the (run sample_env answered_run sample_mount)"

definition unanswered_run :: "(string \<times> action) list" where
  "unanswered_run =
     [(''session-2'', SubmitInput [message User ''clean the build'']),
      (''session-3'', OnLoading True)]"

text \<open>
  A request during which the person opens the model overlay and the engine then asks for a
  confirmation; the person selects another model while the question is pending.
\<close>

definition confirmation_run :: "(string \<times> action) list" where
  "confirmation_run =
     [(''session-2'', SubmitInput [message User ''clean the build'']),
      (''session-3'', OnLoading True),
      (''session-4'', OpenModelOverlay),
      (''session-5'', Ask sample_prompt)]"

text \<open>A request during which the engine asks for a confirmation.\<close>

definition asked_run :: "(string \<times> action) list" where
  "asked_run =
     [(''session-2'', SubmitInput [message User ''clean the build'']),
      (''session-3'', OnLoading True),
      (''session-4'', Ask sample_prompt)]"

section \<open>What the effects and a render leave unchanged\<close>

lemma agentLoopEffect_frame [simp]:
  "items (agentLoopEffect u s) = items s"
  "overlayMode (agentLoopEffect u s) = overlayMode s"
  "loading (agentLoopEffect u s) = loading s"
  "model (agentLoopEffect u s) = model s"
  "approvalPolicy (agentLoopEffect u s) = approvalPolicy s"
  "confirmationPrompt (agentLoopEffect u s) = confirmationPrompt s"
  "config (agentLoopEffect u s) = config s"
  "additionalWritableRoots (agentLoopEffect u s) = additionalWritableRoots s"
  "config_identity (agentLoopEffect u s) = config_identity s"
  "roots_identity (agentLoopEffect u s) = roots_identity s"
  "thinkingSeconds (agentLoopEffect u s) = thinkingSeconds s"
  "handle (agentLoopEffect u s) = handle s"
  "prevLoadingRef (agentLoopEffect u s) = prevLoadingRef s"
  "mcpServerStatus (agentLoopEffect u s) = mcpServerStatus s"
  by (simp_all add: agentLoopEffect_def Let_def split: option.splits)

lemma agentLoopCleanup_frame [simp]:
  "items (agentLoopCleanup s) = items s"
  "overlayMode (agentLoopCleanup s) = overlayMode s"
  "loading (agentLoopCleanup s) = loading s"
  "model (agentLoopCleanup s) = model s"
  "approvalPolicy (agentLoopCleanup s) = approvalPolicy s"
  "confirmationPrompt (agentLoopCleanup s) = confirmationPrompt s"
  "config (agentLoopCleanup s) = config s"
  "additionalWritableRoots (agentLoopCleanup s) = additionalWritableRoots s"
  "config_identity (agentLoopCleanup s) = config_identity s"
  "roots_identity (agentLoopCleanup s) = roots_identity s"
  "thinkingSeconds (agentLoopCleanup s) = thinkingSeconds s"
  "handle (agentLoopCleanup s) = handle s"
  "prevLoadingRef (agentLoopCleanup s) = prevLoadingRef s"
  "agentCleanup (agentLoopCleanup s) = agentCleanup s"
  "mcpServerStatus (agentLoopCleanup s) = mcpServerStatus s"
  by (simp_all add: agentLoopCleanup_def split: option.splits)

lemma timerEffect_frame [simp]:
  "items (timerEffect s) = items s"
  "overlayMode (timerEffect s) = overlayMode s"
  "loading (timerEffect s) = loading s"
  "model (timerEffect s) = model s"
  "approvalPolicy (timerEffect s) = approvalPolicy s"
  "confirmationPrompt (timerEffect s) = confirmationPrompt s"
  "config (timerEffect s) = config s"
  "additionalWritableRoots (timerEffect s) = additionalWritableRoots s"
  "config_identity (timerEffect s) = config_identity s"
  "roots_identity (timerEffect s) = roots_identity s"
  "prevLoadingRef (timerEffect s) = prevLoadingRef s"
  "agentRef (timerEffect s) = agentRef s"
  "agentCleanup (timerEffect s) = agentCleanup s"
  "calls (timerEffect s) = calls s"
  "mcpServerStatus (timerEffect s) = mcpServerStatus s"
  "thinkingSeconds (timerEffect s) = 0"
  "handle (timerEffect s) = (loading s \<and> confirmationPrompt s = None)"
  by (simp_all add: timerEffect_def)

lemma timerCleanup_frame [simp]:
  "items (timerCleanup s) = items s"
  "overlayMode (timerCleanup s) = overlayMode s"
  "loading (timerCleanup s) = loading s"
  "model (timerCleanup s) = model s"
  "approvalPolicy (timerCleanup s) = approvalPolicy s"
  "confirmationPrompt (timerCleanup s) = confirmationPrompt s"
  "config (timerCleanup s) = config s"
  "additionalWritableRoots (timerCleanup s) = additionalWritableRoots s"
  "config_identity (timerCleanup s) = config_identity s"
  "roots_identity (timerCleanup s) = roots_identity s"
  "prevLoadingRef (timerCleanup s) = prevLoadingRef s"
  "agentRef (timerCleanup s) = agentRef s"
  "agentCleanup (timerCleanup s) = agentCleanup s"
  "calls (timerCleanup s) = calls s"
  "mcpServerStatus (timerCleanup s) = mcpServerStatus s"
  "thinkingSeconds (timerCleanup s) = thinkingSeconds s"
  "handle (timerCleanup s) = False"
  by (simp_all add: timerCleanup_def)

lemma notifyEffect_frame [simp]:
  "items (notifyEffect e s) = items s"
  "overlayMode (notifyEffect e s) = overlayMode s"
  "loading (notifyEffect e s) = loading s"
  "model (notifyEffect e s) = model s"
  "approvalPolicy (notifyEffect e s) = approvalPolicy s"
  "confirmationPrompt (notifyEffect e s) = confirmationPrompt s"
  "config (notifyEffect e s) = config s"
  "additionalWritableRoots (notifyEffect e s) = additionalWritableRoots s"
  "config_identity (notifyEffect e s) = config_identity s"
  "roots_identity (notifyEffect e s) = roots_identity s"
  "agentRef (notifyEffect e s) = agentRef s"
  "agentCleanup (notifyEffect e s) = agentCleanup s"
  "mcpServerStatus (notifyEffect e s) = mcpServerStatus s"
  "thinkingSeconds (notifyEffect e s) = thinkingSeconds s"
  "handle (notifyEffect e s) = handle s"
  "prevLoadingRef (notifyEffect e s) = loading s"
  by (simp_all add: notifyEffect_def Let_def)

lemma commit_frame [simp]:
  "items (commit e u old new) = items new"
  "overlayMode (commit e u old new) = overlayMode new"
  "loading (commit e u old new) = loading new"
  "model (commit e u old new) = model new"
  "approvalPolicy (commit e u old new) = approvalPolicy new"
  "confirmationPrompt (commit e u old new) = confirmationPrompt new"
  "config (commit e u old new) = config new"
  "additionalWritableRoots (commit e u old new) = additionalWritableRoots new"
  "config_identity (commit e u old new) = config_identity new"
  "roots_identity (commit e u old new) = roots_identity new"
  "mcpServerStatus (commit e u old new) = mcpServerStatus new"
  by (simp_all add: commit_def Let_def)

lemma commit_refl: "commit e u s s = s"
  by (simp add: commit_def)

section \<open>Unfolding and evaluation lemmas\<close>

lemmas handler_defs =
  setProps_def onItem_def onLoading_def broker_ask_def broker_answer_def tick_def
  openOverlay_def openModelOverlay_def openApprovalOverlay_def openHelpOverlay_def
  openDiffOverlay_def handleMCPCommand_def handleCompact_begin_def handleCompact_settled_def
  interruptAgent_def submitInput_def ModelOverlay_onSelect_def ApprovalModeOverlay_onSelect_def
  onExit_def setOverlayMode_def setItems_def

lemma step_Some:
  "step e u a s = Some s' \<longleftrightarrow> available a s \<and> s' = commit e u s (handler a s)"
  by (auto simp: step_def)

lemma step_the: "available a s \<Longrightarrow> step e u a s = Some (the (step e u a s))"
  by (simp add: step_def)

lemma sample_mount_eq:
  "sample_mount =
     \<lparr>config = sample_config, config_identity = 0, additionalWritableRoots = [],
      roots_identity = 0, model = ''o4-mini'',
      loading = False, approvalPolicy = Policy_suggest, thinkingSeconds = 0,
      items = [], mcpServerStatus = [], confirmationPrompt = None,
      overlayMode = Overlay_none,
      agentRef = Some \<lparr>al_model = ''o4-mini'', al_config = sample_config,
                        al_instructions = None, al_approvalPolicy = Policy_suggest,
                        al_additionalWritableRoots = [], al_sessionId = ''session-1''\<rparr>,
      prevLoadingRef = False, agentCleanup = True, handle = False,
      calls = [AgentLoop_new \<lparr>al_model = ''o4-mini'', al_config = sample_config,
                        al_instructions = None, al_approvalPolicy = Policy_suggest,
                        al_additionalWritableRoots = [], al_sessionId = ''session-1''\<rparr>]\<rparr>"
  by (simp add: sample_mount_def mount_def initial_def agentLoopEffect_def timerEffect_def
        notifyEffect_def sample_config_def Let_def)

lemma sample_mount_input_rendered: "input_rendered sample_mount"
  by (simp add: input_rendered_def sample_mount_eq)

lemma commit_overlay_only:
  "commit e u s (s\<lparr>overlayMode := m\<rparr>) = s\<lparr>overlayMode := m\<rparr>"
  by (simp add: commit_def agent_deps_def timer_deps_def notify_deps_def)

lemma model_open_eq: "model_open = sample_mount\<lparr>overlayMode := Overlay_model\<rparr>"
  by (simp add: model_open_def step_def sample_mount_input_rendered openModelOverlay_def
        commit_overlay_only)

lemma approval_open_eq: "approval_open = sample_mount\<lparr>overlayMode := Overlay_approval\<rparr>"
  by (simp add: approval_open_def step_def sample_mount_input_rendered openApprovalOverlay_def
        commit_overlay_only)

lemma help_open_eq: "help_open = sample_mount\<lparr>overlayMode := Overlay_help\<rparr>"
  by (simp add: help_open_def step_def sample_mount_input_rendered openHelpOverlay_def
        commit_overlay_only)

section \<open>The explanation operation\<close>

lemma explanation_catch_Inr: "\<exists>text. explanation_catch error = Inr text"
  by (simp add: explanation_catch_def)

lemma generateCommandExplanation_Inr:
  "\<exists>text. generateCommandExplanation fmt gen command m = Inr text"
  using explanation_catch_Inr
  by (cases "gen (explain_request fmt command m)")
     (auto simp: generateCommandExplanation_def explanation_try_def)

text \<open>
  Claim C4. For every command and model the explanation operation resolves with a string
  and never rejects, whether the text generation returns or throws. When the
  generation throws an \<^verbatim>\<open>Error\<close> with a numeric status, status 401 yields the message
  for an invalid or expired API key, status 429 the rate-limit message and a status of
  500 or more the service-unavailable message; every other failure yields a generic
  message: the error's own message after "Unable to generate explanation: " for an
  \<^verbatim>\<open>Error\<close>, and "Unable to generate explanation due to an error." for any other
  thrown value.
\<close>

theorem generateCommandExplanation_resolves_and_classifies:
  "(\<exists>text. generateCommandExplanation fmt gen command m = Inr text)
   \<and> (gen (explain_request fmt command m) = Throws (JsError msg (Some 401))
        \<longrightarrow> generateCommandExplanation fmt gen command m
            = Inr ''Unable to generate explanation: API key is invalid or expired.'')
   \<and> (gen (explain_request fmt command m) = Throws (JsError msg (Some 429))
        \<longrightarrow> generateCommandExplanation fmt gen command m
            = Inr ''Unable to generate explanation: Rate limit exceeded. Please try again later.'')
   \<and> (\<forall>st. st \<ge> 500 \<and> gen (explain_request fmt command m) = Throws (JsError msg (Some st))
        \<longrightarrow> generateCommandExplanation fmt gen command m
            = Inr ''Unable to generate explanation: Service is currently unavailable. Please try again later.'')
   \<and> (\<forall>st. st \<noteq> 401 \<and> st \<noteq> 429 \<and> st < 500
            \<and> gen (explain_request fmt command m) = Throws (JsError msg (Some st))
        \<longrightarrow> generateCommandExplanation fmt gen command m
            = Inr (''Unable to generate explanation: '' @ msg))
   \<and> (gen (explain_request fmt command m) = Throws (JsError msg None)
        \<longrightarrow> generateCommandExplanation fmt gen command m
            = Inr (''Unable to generate explanation: '' @ msg))
   \<and> (gen (explain_request fmt command m) = Throws NonError
        \<longrightarrow> generateCommandExplanation fmt gen command m
            = Inr ''Unable to generate explanation due to an error.'')"
proof -
  have resolves: "\<exists>text. generateCommandExplanation fmt gen command m = Inr text"
    by (rule generateCommandExplanation_Inr)
  show ?thesis
    using resolves
    by (simp add: generateCommandExplanation_def explanation_try_def explanation_catch_def)
qed

theorem generateCommandExplanation_witness:
  "generateCommandExplanation concat (\<lambda>r. Throws (JsError ''denied'' (Some 401))) [''rm'', ''-rf''] ''o3''
     = Inr ''Unable to generate explanation: API key is invalid or expired.''
   \<and> generateCommandExplanation concat (\<lambda>r. Throws (JsError ''slow down'' (Some 429))) [''rm'', ''-rf''] ''o3''
     = Inr ''Unable to generate explanation: Rate limit exceeded. Please try again later.''
   \<and> generateCommandExplanation concat (\<lambda>r. Throws (JsError ''bad gateway'' (Some 502))) [''rm'', ''-rf''] ''o3''
     = Inr ''Unable to generate explanation: Service is currently unavailable. Please try again later.''
   \<and> generateCommandExplanation concat (\<lambda>r. Throws (JsError ''not found'' (Some 404))) [''rm'', ''-rf''] ''o3''
     = Inr ''Unable to generate explanation: not found''
   \<and> generateCommandExplanation concat (\<lambda>r. Throws (JsError ''socket closed'' None)) [''rm'', ''-rf''] ''o3''
     = Inr ''Unable to generate explanation: socket closed''
   \<and> generateCommandExplanation concat (\<lambda>r. Throws NonError) [''rm'', ''-rf''] ''o3''
     = Inr ''Unable to generate explanation due to an error.''"
  using generateCommandExplanation_resolves_and_classifies
          [of concat "\<lambda>r. Throws (JsError ''denied'' (Some 401))" "[''rm'', ''-rf'']" "''o3''" "''denied''"]
        generateCommandExplanation_resolves_and_classifies
          [of concat "\<lambda>r. Throws (JsError ''slow down'' (Some 429))" "[''rm'', ''-rf'']" "''o3''" "''slow down''"]
        generateCommandExplanation_resolves_and_classifies
          [of concat "\<lambda>r. Throws (JsError ''bad gateway'' (Some 502))" "[''rm'', ''-rf'']" "''o3''" "''bad gateway''"]
        generateCommandExplanation_resolves_and_classifies
          [of concat "\<lambda>r. Throws (JsError ''not found'' (Some 404))" "[''rm'', ''-rf'']" "''o3''" "''not found''"]
        generateCommandExplanation_resolves_and_classifies
          [of concat "\<lambda>r. Throws (JsError ''socket closed'' None)" "[''rm'', ''-rf'']" "''o3''" "''socket closed''"]
        generateCommandExplanation_resolves_and_classifies
          [of concat "\<lambda>r. Throws NonError" "[''rm'', ''-rf'']" "''o3''" "''x''"]
  by simp

section \<open>The transcript\<close>

text \<open>
  Claim C3, as the code has it. Every event but one leaves the old transcript as a prefix
  of the new one: engine output, user input, the notices for an interruption, a model
  switch and an approval-mode switch, the diff display and a failed compaction append, and
  the other events leave the transcript as it is. A compaction that succeeds replaces the
  whole transcript by one assistant item that holds the summary. The setter that the
  component hands to its input child is none of these operations: a call of it leaves the
  transcript that it is given.
\<close>

theorem transcript_prefix_unless_compacted:
  assumes "step e u a s = Some s'"
  shows "case a of
           CompactSettled (Inr summary) now \<Rightarrow> items s' = [message Assistant summary]
         | SetItems updated \<Rightarrow> items s' = updated
         | _ \<Rightarrow> prefix (items s) (items s')"
proof -
  have s': "s' = commit e u s (handler a s)"
    using assms by (simp add: step_Some)
  show ?thesis
  proof (cases a)
    case (CompactSettled outcome now)
    then show ?thesis
      by (cases outcome) (simp_all add: s' handleCompact_settled_def message_def)
  qed (simp_all add: s' handler_defs Let_def split: option.splits)
qed

theorem transcript_prefix_witness:
  "prefix (items sample_mount)
     (items (the (step sample_env ''session-2'' (SubmitInput [message User ''hello'']) sample_mount)))
   \<and> items (the (step sample_env ''session-2'' (CompactSettled (Inr ''summary'') 7) sample_mount))
       = [message Assistant ''summary'']
   \<and> items (the (step sample_env ''session-2'' (SetItems [message System ''cleared'']) sample_mount))
       = [message System ''cleared'']"
proof -
  have a: "available (SubmitInput [message User ''hello'']) sample_mount"
    by (simp add: sample_mount_input_rendered)
  have b: "available (CompactSettled (Inr ''summary'') 7) sample_mount"
    by simp
  have c: "available (SetItems [message System ''cleared'']) sample_mount"
    by (simp add: sample_mount_input_rendered)
  show ?thesis
    using transcript_prefix_unless_compacted
            [OF step_the [OF a, where e = sample_env and u = "''session-2''"]]
          transcript_prefix_unless_compacted
            [OF step_the [OF b, where e = sample_env and u = "''session-2''"]]
          transcript_prefix_unless_compacted
            [OF step_the [OF c, where e = sample_env and u = "''session-2''"]]
    by simp
qed

text \<open>
  The claim as stated fails for context compaction: after the user's "hello" a compaction
  that succeeds leaves only the summary, and the old transcript is no prefix of the new one.
  A call of the setter that the input child holds, here with the empty list, removes the
  item as well.
\<close>

theorem compaction_replaces_transcript:
  "map_option items (run sample_env
       [(''session-2'', SubmitInput [message User ''hello'']), (''session-3'', OnCompact)]
       sample_mount) = Some [message User ''hello'']
   \<and> map_option items (run sample_env
       [(''session-2'', SubmitInput [message User ''hello'']), (''session-3'', OnCompact),
        (''session-4'', CompactSettled (Inr ''summary'') 7)]
       sample_mount) = Some [message Assistant ''summary'']
   \<and> \<not> prefix [message User ''hello''] [message Assistant ''summary'']
   \<and> map_option items (run sample_env
       [(''session-2'', SubmitInput [message User ''hello'']), (''session-3'', SetItems [])]
       sample_mount) = Some []"
  by code_simp

section \<open>The confirmation round trip\<close>

text \<open>
  Claim C2, as the code has it. In a round trip started by the bridge, a first decision
  other than request-explanation is returned at once with its custom deny message and the
  original patch payload, after one question and no explanation call. After a first
  decision request-explanation the bridge makes exactly one explanation call and asks a
  second time with the explanation attached; what it returns is the second round's
  decision, whatever that is, with the second round's custom deny message, the original
  patch payload and the explanation text. The bridge does not settle while an answer is
  outstanding.
\<close>

theorem getCommandConfirmation_round_trip:
  assumes "answers w = first # rest"
  shows
    "(cr_decision first \<noteq> EXPLAIN \<longrightarrow>
        getCommandConfirmation fmt gen m command applyPatch w =
          (Some (Inr \<lparr>cc_review = cr_decision first,
                      cc_customDenyMessage = cr_customDenyMessage first,
                      cc_applyPatch = applyPatch, cc_explanation = None\<rparr>),
           w\<lparr>answers := rest,
             bridge_calls := bridge_calls w @
               [RequestConfirmation \<lparr>prompt_commandForDisplay = fmt command,
                                     prompt_explanation = None\<rparr>]\<rparr>))
     \<and> (cr_decision first = EXPLAIN \<longrightarrow>
          (\<exists>explanation.
             generateCommandExplanation fmt gen command m = Inr explanation
             \<and> bridge_calls (snd (getCommandConfirmation fmt gen m command applyPatch w)) =
                 bridge_calls w @
                   [RequestConfirmation \<lparr>prompt_commandForDisplay = fmt command,
                                         prompt_explanation = None\<rparr>,
                    GenerateCommandExplanation command m,
                    RequestConfirmation \<lparr>prompt_commandForDisplay = fmt command,
                                         prompt_explanation = Some explanation\<rparr>]
             \<and> (case rest of
                   [] \<Rightarrow> fst (getCommandConfirmation fmt gen m command applyPatch w) = None
                 | second # rest' \<Rightarrow>
                     getCommandConfirmation fmt gen m command applyPatch w =
                       (Some (Inr \<lparr>cc_review = cr_decision second,
                                   cc_customDenyMessage = cr_customDenyMessage second,
                                   cc_applyPatch = applyPatch,
                                   cc_explanation = Some explanation\<rparr>),
                        w\<lparr>answers := rest',
                          bridge_calls := bridge_calls w @
                            [RequestConfirmation \<lparr>prompt_commandForDisplay = fmt command,
                                                  prompt_explanation = None\<rparr>,
                             GenerateCommandExplanation command m,
                             RequestConfirmation \<lparr>prompt_commandForDisplay = fmt command,
                                                  prompt_explanation = Some explanation\<rparr>]\<rparr>))))"
proof (intro conjI impI)
  assume "cr_decision first \<noteq> EXPLAIN"
  then show "getCommandConfirmation fmt gen m command applyPatch w =
          (Some (Inr \<lparr>cc_review = cr_decision first,
                      cc_customDenyMessage = cr_customDenyMessage first,
                      cc_applyPatch = applyPatch, cc_explanation = None\<rparr>),
           w\<lparr>answers := rest,
             bridge_calls := bridge_calls w @
               [RequestConfirmation \<lparr>prompt_commandForDisplay = fmt command,
                                     prompt_explanation = None\<rparr>]\<rparr>)"
    using assms by (simp add: getCommandConfirmation_def requestConfirmation_def Let_def)
next
  assume explain: "cr_decision first = EXPLAIN"
  obtain explanation where ex: "generateCommandExplanation fmt gen command m = Inr explanation"
    using generateCommandExplanation_Inr [of fmt gen command m] by blast
  show "\<exists>explanation.
             generateCommandExplanation fmt gen command m = Inr explanation
             \<and> bridge_calls (snd (getCommandConfirmation fmt gen m command applyPatch w)) =
                 bridge_calls w @
                   [RequestConfirmation \<lparr>prompt_commandForDisplay = fmt command,
                                         prompt_explanation = None\<rparr>,
                    GenerateCommandExplanation command m,
                    RequestConfirmation \<lparr>prompt_commandForDisplay = fmt command,
                                         prompt_explanation = Some explanation\<rparr>]
             \<and> (case rest of
                   [] \<Rightarrow> fst (getCommandConfirmation fmt gen m command applyPatch w) = None
                 | second # rest' \<Rightarrow>
                     getCommandConfirmation fmt gen m command applyPatch w =
                       (Some (Inr \<lparr>cc_review = cr_decision second,
                                   cc_customDenyMessage = cr_customDenyMessage second,
                                   cc_applyPatch = applyPatch,
                                   cc_explanation = Some explanation\<rparr>),
                        w\<lparr>answers := rest',
                          bridge_calls := bridge_calls w @
                            [RequestConfirmation \<lparr>prompt_commandForDisplay = fmt command,
                                                  prompt_explanation = None\<rparr>,
                             GenerateCommandExplanation command m,
                             RequestConfirmation \<lparr>prompt_commandForDisplay = fmt command,
                                                  prompt_explanation = Some explanation\<rparr>]\<rparr>))"
    using assms explain ex
    by (intro exI [of _ explanation])
       (simp add: getCommandConfirmation_def requestConfirmation_def Let_def split: list.splits)
qed


theorem getCommandConfirmation_witness:
  "getCommandConfirmation concat (\<lambda>r. Returns ''removes the build directory'') ''o3''
       [''rm'', ''-rf'', ''build''] (Some ''patch'')
       (sample_world [answer Deny_with_custom_message (Some ''not safe'')])
     = (Some (Inr \<lparr>cc_review = Deny_with_custom_message, cc_customDenyMessage = Some ''not safe'',
                   cc_applyPatch = Some ''patch'', cc_explanation = None\<rparr>),
        \<lparr>answers = [],
         bridge_calls = [RequestConfirmation \<lparr>prompt_commandForDisplay = ''rm-rfbuild'',
                                               prompt_explanation = None\<rparr>]\<rparr>)
   \<and> getCommandConfirmation concat (\<lambda>r. Returns ''removes the build directory'') ''o3''
       [''rm'', ''-rf'', ''build''] (Some ''patch'')
       (sample_world [answer EXPLAIN None, answer Approve_once None])
     = (Some (Inr \<lparr>cc_review = Approve_once, cc_customDenyMessage = None,
                   cc_applyPatch = Some ''patch'',
                   cc_explanation = Some ''removes the build directory''\<rparr>),
        \<lparr>answers = [],
         bridge_calls = [RequestConfirmation \<lparr>prompt_commandForDisplay = ''rm-rfbuild'',
                                               prompt_explanation = None\<rparr>,
                         GenerateCommandExplanation [''rm'', ''-rf'', ''build''] ''o3'',
                         RequestConfirmation \<lparr>prompt_commandForDisplay = ''rm-rfbuild'',
                                               prompt_explanation = Some ''removes the build directory''\<rparr>]\<rparr>)"
proof -
  have a: "answers (sample_world [answer Deny_with_custom_message (Some ''not safe'')])
           = answer Deny_with_custom_message (Some ''not safe'') # []"
    by (simp add: sample_world_def)
  have b: "answers (sample_world [answer EXPLAIN None, answer Approve_once None])
           = answer EXPLAIN None # [answer Approve_once None]"
    by (simp add: sample_world_def)
  have c: "generateCommandExplanation concat (\<lambda>r. Returns ''removes the build directory'')
             [''rm'', ''-rf'', ''build''] ''o3'' = Inr ''removes the build directory''"
    by (simp add: generateCommandExplanation_def explanation_try_def)
  show ?thesis
    using getCommandConfirmation_round_trip
            [OF a, of concat "\<lambda>r. Returns ''removes the build directory''" "''o3''"
               "[''rm'', ''-rf'', ''build'']" "Some ''patch''"]
          getCommandConfirmation_round_trip
            [OF b, of concat "\<lambda>r. Returns ''removes the build directory''" "''o3''"
               "[''rm'', ''-rf'', ''build'']" "Some ''patch''"]
    by (simp add: c answer_def sample_world_def)
qed

text \<open>
  The claim as stated says that request-explanation is never returned to the engine. The
  second round's decision is returned unchecked: a person who asks for an explanation in
  both rounds makes the bridge return request-explanation.
\<close>

theorem getCommandConfirmation_returns_second_explain:
  "fst (getCommandConfirmation concat (\<lambda>r. Returns ''removes the build directory'') ''o3''
          [''rm'', ''-rf'', ''build''] (Some ''patch'')
          (sample_world [answer EXPLAIN None, answer EXPLAIN None]))
     = Some (Inr \<lparr>cc_review = EXPLAIN, cc_customDenyMessage = None,
                  cc_applyPatch = Some ''patch'',
                  cc_explanation = Some ''removes the build directory''\<rparr>)"
  by (simp add: getCommandConfirmation_def requestConfirmation_def Let_def sample_world_def
        answer_def generateCommandExplanation_def explanation_try_def)

section \<open>The overlay mode\<close>

lemma OverlayModeType_seven:
  "x \<in> {Overlay_none, Overlay_history, Overlay_model, Overlay_approval, Overlay_help,
         Overlay_diff, Overlay_mcp}"
  by (cases x) simp_all

text \<open>
  Claim C9, as the code has it. The overlay mode is always one of the seven values. Every
  overlay's exit action sets the mode to "none", and so do the selection of a model and the
  selection of an approval policy that differs from the current one; the selection of the
  current policy changes nothing. From "none", the open actions of the history, model,
  approval, help and MCP overlays set the mode to that overlay's state; the open action of
  the diff overlay appends the diff text to the transcript and leaves the mode at "none".
  The open actions exist only in mode "none". The mode setter that the component hands to
  the message history sets whatever mode it is given, from any mode, and every other event
  leaves the mode as it is.
\<close>

theorem overlayMode_transitions:
  assumes "step e u a s = Some s'"
  shows
    "overlayMode s' \<in> {Overlay_none, Overlay_history, Overlay_model, Overlay_approval,
                        Overlay_help, Overlay_diff, Overlay_mcp}
     \<and> (a = OnExit \<longrightarrow> overlayMode s \<noteq> Overlay_none \<and> overlayMode s' = Overlay_none)
     \<and> (\<forall>newModel now. a = SelectModel newModel now \<longrightarrow>
           overlayMode s = Overlay_model \<and> overlayMode s' = Overlay_none)
     \<and> (\<forall>newMode now. a = SelectApproval newMode now \<longrightarrow>
           overlayMode s = Overlay_approval
           \<and> overlayMode s' = (if newMode = approvalPolicy s then Overlay_approval else Overlay_none))
     \<and> (a = OpenOverlay \<longrightarrow> overlayMode s = Overlay_none \<and> overlayMode s' = Overlay_history)
     \<and> (a = OpenModelOverlay \<longrightarrow> overlayMode s = Overlay_none \<and> overlayMode s' = Overlay_model)
     \<and> (a = OpenApprovalOverlay \<longrightarrow>
           overlayMode s = Overlay_none \<and> overlayMode s' = Overlay_approval)
     \<and> (a = OpenHelpOverlay \<longrightarrow> overlayMode s = Overlay_none \<and> overlayMode s' = Overlay_help)
     \<and> (\<forall>status. a = OpenMCPOverlay status \<longrightarrow>
           overlayMode s = Overlay_none \<and> overlayMode s' = Overlay_mcp)
     \<and> (\<forall>isGitRepo d now. a = OpenDiffOverlay isGitRepo d now \<longrightarrow>
           overlayMode s = Overlay_none \<and> overlayMode s' = Overlay_none
           \<and> items s' = items s @
                 [\<lparr>msg_id = Some (''diff-'' @ decimal now), msg_type = Some ''message'',
                   msg_role = System,
                   msg_content = (if isGitRepo then d else not_a_repository)\<rparr>])
     \<and> (\<forall>m. a = SetOverlayMode m \<longrightarrow> overlayMode s' = m)
     \<and> (\<not> overlay_action a \<longrightarrow> overlayMode s' = overlayMode s)"
proof -
  have s': "s' = commit e u s (handler a s)" and av: "available a s"
    using assms by (simp_all add: step_Some)
  have seven: "overlayMode s' \<in> {Overlay_none, Overlay_history, Overlay_model,
      Overlay_approval, Overlay_help, Overlay_diff, Overlay_mcp}"
    by (rule OverlayModeType_seven)
  show ?thesis
    apply (rule conjI [OF seven])
    using av
    by (cases a)
       (auto simp: s' handler_defs input_rendered_def Let_def
          split: option.splits sum.splits)
qed

theorem overlayMode_transitions_witness:
  "overlayMode model_open = Overlay_model
   \<and> overlayMode (the (step sample_env ''session-3'' OnExit model_open)) = Overlay_none
   \<and> overlayMode (the (step sample_env ''session-2'' (OpenDiffOverlay False [] 7) sample_mount))
       = Overlay_none
   \<and> overlayMode (the (step sample_env ''session-3'' (SetOverlayMode Overlay_diff) help_open))
       = Overlay_diff
   \<and> overlayMode (the (step sample_env ''session-2'' (OnLoading True) help_open)) = Overlay_help"
proof -
  have a: "available OpenModelOverlay sample_mount"
    by (simp add: sample_mount_input_rendered)
  have b: "available OnExit model_open"
    by (simp add: model_open_eq)
  have c: "available (OpenDiffOverlay False [] 7) sample_mount"
    by (simp add: sample_mount_input_rendered)
  have d: "available (SetOverlayMode Overlay_diff) help_open"
    by (simp add: help_open_eq sample_mount_eq)
  have f: "available (OnLoading True) help_open"
    by simp
  have g: "\<exists>x. \<not> x"
    by blast
  have h: "overlayMode help_open = Overlay_help"
    by (simp add: help_open_eq)
  show ?thesis
    using overlayMode_transitions [OF step_the [OF a, where e = sample_env and u = "''session-2''"]]
          overlayMode_transitions [OF step_the [OF b, where e = sample_env and u = "''session-3''"]]
          overlayMode_transitions [OF step_the [OF c, where e = sample_env and u = "''session-2''"]]
          overlayMode_transitions [OF step_the [OF d, where e = sample_env and u = "''session-3''"]]
          overlayMode_transitions [OF step_the [OF f, where e = sample_env and u = "''session-2''"]]
    by (simp add: g h model_open_def)
qed

text \<open>
  The claim as stated fails in two places. From "none" the open action of the diff overlay
  does not lead to the mode "diff" but back to "none". And from a mode other than "none",
  here "help", a call of the mode setter that the message history holds leads to another
  overlay, here "model", without passing "none".
\<close>

theorem openDiffOverlay_stays_none:
  "overlayMode sample_mount = Overlay_none
   \<and> map_option overlayMode
         (step sample_env ''session-2'' (OpenDiffOverlay True ''diff --git a/x b/x'' 7) sample_mount)
       = Some Overlay_none
   \<and> overlayMode help_open = Overlay_help
   \<and> map_option overlayMode (step sample_env ''session-3'' (SetOverlayMode Overlay_model) help_open)
       = Some Overlay_model"
  by (simp add: step_def input_rendered_def openDiffOverlay_def setOverlayMode_def sample_mount_eq
        help_open_eq)

section \<open>What the effects and a render do\<close>

lemma agentLoopCleanup_does [simp]:
  "agentRef (agentLoopCleanup s) = None"
  "calls (agentLoopCleanup s) =
     calls s @ (case agentRef s of None \<Rightarrow> [] | Some a \<Rightarrow> [AgentLoop_terminate (al_sessionId a)])"
  by (simp_all add: agentLoopCleanup_def split: option.splits)

lemma agentLoopEffect_does [simp]:
  "agentRef (agentLoopEffect u s) =
     (if confirmationPrompt s \<noteq> None then agentRef s else Some (new_engine u s))"
  "agentCleanup (agentLoopEffect u s) = (confirmationPrompt s = None)"
  "calls (agentLoopEffect u s) =
     calls s @
     (if confirmationPrompt s \<noteq> None then []
      else (case agentRef s of None \<Rightarrow> [] | Some a \<Rightarrow> [AgentLoop_terminate (al_sessionId a)])
           @ [AgentLoop_new (new_engine u s)])"
  by (simp_all add: agentLoopEffect_def new_engine_def Let_def split: option.splits)

lemma notifyEffect_calls [simp]:
  "calls (notifyEffect e s) =
     calls s @ (if notification_due e (prevLoadingRef s) s then [notification e (items s)] else [])"
  by (auto simp: notifyEffect_def notification_due_def notification_def Let_def)

lemma new_engine_cong [simp]:
  "new_engine u (timerCleanup s) = new_engine u s"
  "new_engine u (agentLoopCleanup s) = new_engine u s"
  by (simp_all add: new_engine_def)

lemma notification_due_cong [simp]:
  "notification_due e b (timerEffect s) = notification_due e b s"
  "notification_due e b (timerCleanup s) = notification_due e b s"
  "notification_due e b (agentLoopEffect u s) = notification_due e b s"
  "notification_due e b (agentLoopCleanup s) = notification_due e b s"
  by (simp_all add: notification_due_def)

lemma commit_calls:
  "calls (commit e u old new) =
     calls new @ teardown_calls old new @ construction_calls u old new
     @ notification_calls e old new"
  by (simp add: commit_def Let_def teardown_calls_def construction_calls_def
        notification_calls_def split: option.splits)

lemma commit_agentRef:
  "agentRef (commit e u old new) =
     (if agent_deps old = agent_deps new then agentRef new
      else if confirmationPrompt new = None then Some (new_engine u new)
      else if agentCleanup new then None else agentRef new)"
  by (simp add: commit_def Let_def)

lemma commit_agentCleanup:
  "agentCleanup (commit e u old new) =
     (if agent_deps old = agent_deps new then agentCleanup new else confirmationPrompt new = None)"
  by (simp add: commit_def Let_def)

lemma commit_prevLoadingRef:
  "prevLoadingRef (commit e u old new) =
     (if notify_deps old = notify_deps new then prevLoadingRef new else loading new)"
  by (simp add: commit_def Let_def)

lemma commit_handle:
  "handle (commit e u old new) =
     (if timer_deps old = timer_deps new then handle new
      else loading new \<and> confirmationPrompt new = None)"
  by (simp add: commit_def Let_def)

lemma commit_thinkingSeconds:
  "thinkingSeconds (commit e u old new) =
     (if timer_deps old = timer_deps new then thinkingSeconds new else 0)"
  by (simp add: commit_def Let_def)

section \<open>Interruption, approval policy and model selection\<close>

lemma teardown_calls_cases:
  "teardown_calls old new = []
   \<or> (\<exists>a. agentRef new = Some a \<and> agent_deps old \<noteq> agent_deps new
          \<and> teardown_calls old new = [AgentLoop_terminate (al_sessionId a)])"
  unfolding teardown_calls_def by (cases "agentRef new") auto

lemma filter_engine_call_render [simp]:
  "filter engine_call (teardown_calls old new) = teardown_calls old new"
  "filter engine_call (construction_calls u old new) = construction_calls u old new"
  "filter engine_call (notification_calls e old new) = []"
proof -
  show "filter engine_call (teardown_calls old new) = teardown_calls old new"
    using teardown_calls_cases [of old new] by (elim disjE exE conjE) simp_all
  show "filter engine_call (construction_calls u old new) = construction_calls u old new"
    by (simp add: construction_calls_def)
  show "filter engine_call (notification_calls e old new) = []"
    by (simp add: notification_calls_def notification_def)
qed

lemma unchanged_agent_deps [simp]:
  "agent_deps old = agent_deps new \<Longrightarrow> teardown_calls old new = []"
  "agent_deps old = agent_deps new \<Longrightarrow> construction_calls u old new = []"
  by (simp_all add: teardown_calls_def construction_calls_def)

text \<open>
  Claim C7. When the interrupt is invoked while an engine exists (on the input surface,
  that is, in overlay mode "none"): cancellation is requested on that engine, the loading
  flag is false at once, with no callback of the engine in between, a system item that
  records the interruption is appended, and the engine is kept. Any output item that the
  engine produces afterwards is still appended, behind the notice.
\<close>

theorem interruptAgent_then_late_output:
  assumes "agentRef s = Some agent" and "overlayMode s = Overlay_none"
  shows
    "\<exists>s1. step e u (InterruptAgent now) s = Some s1
        \<and> filter engine_call (calls s1)
            = filter engine_call (calls s) @ [AgentLoop_cancel (al_sessionId agent)]
        \<and> loading s1 = False
        \<and> items s1 = items s @ [notice ''interrupt'' now interrupted_text]
        \<and> agentRef s1 = Some agent
        \<and> (\<forall>u' sessionId item.
              \<exists>s2. step e u' (OnItem sessionId item) s1 = Some s2
                \<and> items s2 = items s @ [notice ''interrupt'' now interrupted_text, item]
                \<and> loading s2 = False)"
proof -
  let ?s1 = "commit e u s (interruptAgent now s)"
  have deps: "agent_deps s = agent_deps (interruptAgent now s)"
    using assms by (simp add: agent_deps_def interruptAgent_def)
  have "step e u (InterruptAgent now) s = Some ?s1"
    using assms by (simp add: step_def input_rendered_def)
  moreover have "filter engine_call (calls ?s1)
      = filter engine_call (calls s) @ [AgentLoop_cancel (al_sessionId agent)]"
    using assms deps by (simp add: commit_calls) (simp add: interruptAgent_def)
  moreover have "loading ?s1 = False"
    using assms by (simp add: interruptAgent_def)
  moreover have it: "items ?s1 = items s @ [notice ''interrupt'' now interrupted_text]"
    using assms by (simp add: interruptAgent_def notice_def)
  moreover have "agentRef ?s1 = Some agent"
    using assms deps by (simp add: commit_agentRef) (simp add: interruptAgent_def)
  moreover have "\<exists>s2. step e u' (OnItem sessionId item) ?s1 = Some s2
                \<and> items s2 = items s @ [notice ''interrupt'' now interrupted_text, item]
                \<and> loading s2 = False" for u' sessionId item
    using assms by (simp add: step_def onItem_def Let_def interruptAgent_def notice_def)
  ultimately show ?thesis
    by blast
qed

theorem interruptAgent_witness:
  "\<exists>s1. step sample_env ''session-2'' (InterruptAgent 7) sample_mount = Some s1
        \<and> filter engine_call (calls s1)
            = filter engine_call (calls sample_mount) @ [AgentLoop_cancel ''session-1'']
        \<and> loading s1 = False
        \<and> items s1 = [notice ''interrupt'' 7 interrupted_text]
        \<and> (\<exists>s2. step sample_env ''session-3'' (OnItem ''session-1'' (message Assistant ''late'')) s1
                   = Some s2
                \<and> items s2 = [notice ''interrupt'' 7 interrupted_text, message Assistant ''late''])"
proof -
  have a: "agentRef sample_mount = Some (new_engine ''session-1'' sample_mount)"
    by (simp add: sample_mount_eq new_engine_def sample_config_def)
  have b: "overlayMode sample_mount = Overlay_none"
    by (simp add: sample_mount_eq)
  have c: "al_sessionId (new_engine ''session-1'' sample_mount) = ''session-1''"
    by (simp add: new_engine_def)
  have d: "items sample_mount = []"
    by (simp add: sample_mount_eq)
  show ?thesis
    using interruptAgent_then_late_output [OF a b, of sample_env "''session-2''" 7]
    unfolding c d by fastforce
qed

text \<open>
  Claim C8. When a policy is selected in the approval overlay: if it equals the current
  policy nothing happens, the state is the same and no transcript item is added; if it
  differs, the policy is written onto the live engine in place, a system item that notes the
  switch is appended, and the engine is neither torn down nor constructed again nor
  cancelled, so that work in flight goes on.
\<close>

theorem approval_policy_in_place:
  assumes "overlayMode s = Overlay_approval"
  shows
    "(newMode = approvalPolicy s \<longrightarrow> step e u (SelectApproval newMode now) s = Some s)
     \<and> (newMode \<noteq> approvalPolicy s \<longrightarrow>
          (\<exists>s'. step e u (SelectApproval newMode now) s = Some s'
             \<and> approvalPolicy s' = newMode
             \<and> agentRef s' = map_option (\<lambda>agent. agent\<lparr>al_approvalPolicy := newMode\<rparr>) (agentRef s)
             \<and> items s' = items s @
                   [notice ''switch-approval'' now
                      (''Switched approval mode to '' @ policy_text newMode)]
             \<and> filter engine_call (calls s') = filter engine_call (calls s)
             \<and> agentCleanup s' = agentCleanup s
             \<and> loading s' = loading s \<and> model s' = model s))"
proof (intro conjI impI)
  assume "newMode = approvalPolicy s"
  then show "step e u (SelectApproval newMode now) s = Some s"
    using assms by (simp add: step_def ApprovalModeOverlay_onSelect_def commit_refl)
next
  assume differs: "newMode \<noteq> approvalPolicy s"
  let ?h = "ApprovalModeOverlay_onSelect newMode now s"
  let ?s' = "commit e u s ?h"
  have deps: "agent_deps s = agent_deps ?h"
    using differs by (simp add: agent_deps_def ApprovalModeOverlay_onSelect_def)
  have "step e u (SelectApproval newMode now) s = Some ?s'"
    using assms by (simp add: step_def)
  moreover have "approvalPolicy ?s' = newMode" "loading ?s' = loading s" "model ?s' = model s"
    using differs by (simp_all add: ApprovalModeOverlay_onSelect_def)
  moreover have "agentRef ?s'
      = map_option (\<lambda>agent. agent\<lparr>al_approvalPolicy := newMode\<rparr>) (agentRef s)"
    using differs deps
    by (simp add: commit_agentRef)
       (simp add: ApprovalModeOverlay_onSelect_def split: option.splits)
  moreover have "items ?s' = items s @
      [notice ''switch-approval'' now (''Switched approval mode to '' @ policy_text newMode)]"
    using differs by (simp add: ApprovalModeOverlay_onSelect_def notice_def)
  moreover have "filter engine_call (calls ?s') = filter engine_call (calls s)"
    using differs deps by (simp add: commit_calls) (simp add: ApprovalModeOverlay_onSelect_def)
  moreover have "agentCleanup ?s' = agentCleanup s"
    using differs deps
    by (simp add: commit_agentCleanup) (simp add: ApprovalModeOverlay_onSelect_def)
  ultimately show "\<exists>s'. step e u (SelectApproval newMode now) s = Some s'
             \<and> approvalPolicy s' = newMode
             \<and> agentRef s' = map_option (\<lambda>agent. agent\<lparr>al_approvalPolicy := newMode\<rparr>) (agentRef s)
             \<and> items s' = items s @
                   [notice ''switch-approval'' now
                      (''Switched approval mode to '' @ policy_text newMode)]
             \<and> filter engine_call (calls s') = filter engine_call (calls s)
             \<and> agentCleanup s' = agentCleanup s
             \<and> loading s' = loading s \<and> model s' = model s"
    by blast
qed

text \<open>
  Claim C10. Selecting a model in the model overlay behaves like an interrupt before any
  recreation, whether or not work is in flight (nothing is assumed about the loading
  flag): cancellation is requested on the current engine, the loading flag is false, the
  model is updated, the configuration with the new model is saved, a system item
  "Switched model to ..." is appended and the overlay is closed. The calls for cancellation
  and for saving come first; when the model changed, the last engine effect had
  constructed the engine and no confirmation is pending, they are followed by the teardown
  of the old engine and the construction of an engine for the new model.
\<close>

theorem model_selection_interrupts:
  assumes "overlayMode s = Overlay_model" and "agentRef s = Some agent"
  shows
    "\<exists>s'. step e u (SelectModel newModel now) s = Some s'
        \<and> loading s' = False
        \<and> model s' = newModel
        \<and> items s' = items s @ [notice ''switch-model'' now (''Switched model to '' @ newModel)]
        \<and> overlayMode s' = Overlay_none
        \<and> prefix (calls s @ [AgentLoop_cancel (al_sessionId agent),
                              SaveConfig ((config s)\<lparr>cfg_model := newModel\<rparr>)])
                  (calls s')
        \<and> (newModel \<noteq> model s \<and> agentCleanup s \<and> confirmationPrompt s = None \<longrightarrow>
              agentRef s' = Some (new_engine u s')
              \<and> al_model (new_engine u s') = newModel
              \<and> filter (\<lambda>c. \<not> spawn_call c) (calls s')
                  = filter (\<lambda>c. \<not> spawn_call c) (calls s) @
                    [AgentLoop_cancel (al_sessionId agent),
                     SaveConfig ((config s)\<lparr>cfg_model := newModel\<rparr>),
                     AgentLoop_terminate (al_sessionId agent),
                     AgentLoop_new (new_engine u s')])"
proof -
  let ?h = "ModelOverlay_onSelect newModel now s"
  let ?s' = "commit e u s ?h"
  have h_calls: "calls ?h = calls s @ [AgentLoop_cancel (al_sessionId agent),
                              SaveConfig ((config s)\<lparr>cfg_model := newModel\<rparr>)]"
    using assms by (simp add: ModelOverlay_onSelect_def Let_def)
  have h_fields: "agentRef ?h = Some agent" "agentCleanup ?h = agentCleanup s"
    "confirmationPrompt ?h = confirmationPrompt s" "model ?h = newModel"
    "config ?h = config s" "additionalWritableRoots ?h = additionalWritableRoots s"
    "loading ?h = False" "overlayMode ?h = Overlay_none"
    "items ?h = items s @ [notice ''switch-model'' now (''Switched model to '' @ newModel)]"
    using assms by (simp_all add: ModelOverlay_onSelect_def Let_def notice_def)
  have st: "step e u (SelectModel newModel now) s = Some ?s'"
    using assms by (simp add: step_def)
  have fields: "loading ?s' = False" "model ?s' = newModel" "overlayMode ?s' = Overlay_none"
    "items ?s' = items s @ [notice ''switch-model'' now (''Switched model to '' @ newModel)]"
    by (simp_all add: h_fields)
  have pre: "prefix (calls s @ [AgentLoop_cancel (al_sessionId agent),
                              SaveConfig ((config s)\<lparr>cfg_model := newModel\<rparr>)]) (calls ?s')"
    by (simp add: commit_calls h_calls)
  have rec: "agentRef ?s' = Some (new_engine u ?s')
              \<and> al_model (new_engine u ?s') = newModel
              \<and> filter (\<lambda>c. \<not> spawn_call c) (calls ?s')
                  = filter (\<lambda>c. \<not> spawn_call c) (calls s) @
                    [AgentLoop_cancel (al_sessionId agent),
                     SaveConfig ((config s)\<lparr>cfg_model := newModel\<rparr>),
                     AgentLoop_terminate (al_sessionId agent),
                     AgentLoop_new (new_engine u ?s')]"
    if changed: "newModel \<noteq> model s" "agentCleanup s" "confirmationPrompt s = None"
  proof -
    have deps: "agent_deps s \<noteq> agent_deps ?h"
      using changed by (simp add: agent_deps_def h_fields)
    have same: "new_engine u ?s' = new_engine u ?h"
      by (simp add: new_engine_def)
    have "agentRef ?s' = Some (new_engine u ?h)"
      using deps changed by (simp add: commit_agentRef h_fields)
    moreover have "al_model (new_engine u ?h) = newModel"
      by (simp add: new_engine_def h_fields)
    moreover have "teardown_calls s ?h = [AgentLoop_terminate (al_sessionId agent)]"
      using deps changed by (simp add: teardown_calls_def h_fields)
    moreover have "construction_calls u s ?h = [AgentLoop_new (new_engine u ?h)]"
      using deps changed by (simp add: construction_calls_def h_fields)
    moreover have "filter (\<lambda>c. \<not> spawn_call c) (notification_calls e s ?h) = []"
      by (simp add: notification_calls_def notification_def)
    ultimately show ?thesis
      by (simp add: commit_calls h_calls same)
  qed
  have rec': "newModel \<noteq> model s \<and> agentCleanup s \<and> confirmationPrompt s = None \<longrightarrow>
              agentRef ?s' = Some (new_engine u ?s')
              \<and> al_model (new_engine u ?s') = newModel
              \<and> filter (\<lambda>c. \<not> spawn_call c) (calls ?s')
                  = filter (\<lambda>c. \<not> spawn_call c) (calls s) @
                    [AgentLoop_cancel (al_sessionId agent),
                     SaveConfig ((config s)\<lparr>cfg_model := newModel\<rparr>),
                     AgentLoop_terminate (al_sessionId agent),
                     AgentLoop_new (new_engine u ?s')]"
    by (intro impI, elim conjE) (rule rec)
  show ?thesis
    using st fields pre rec'
    by (intro exI [of _ ?s'] conjI) assumption+
qed

theorem approval_policy_witness:
  "step sample_env ''session-3'' (SelectApproval Policy_suggest 7) approval_open
     = Some approval_open
   \<and> (\<exists>s'. step sample_env ''session-3'' (SelectApproval Policy_full_auto 7) approval_open
              = Some s'
          \<and> approvalPolicy s' = Policy_full_auto
          \<and> map_option al_approvalPolicy (agentRef s') = Some Policy_full_auto
          \<and> map_option al_sessionId (agentRef s') = Some ''session-1''
          \<and> filter engine_call (calls s') = filter engine_call (calls approval_open))"
proof -
  have a: "overlayMode approval_open = Overlay_approval"
    by (simp add: approval_open_eq)
  have b: "approvalPolicy approval_open = Policy_suggest"
    by (simp add: approval_open_eq sample_mount_eq)
  have c: "agentRef approval_open = Some (new_engine ''session-1'' sample_mount)"
    by (simp add: approval_open_eq sample_mount_eq new_engine_def sample_config_def)
  show ?thesis
    using approval_policy_in_place [OF a, of Policy_suggest sample_env "''session-3''" 7]
          approval_policy_in_place [OF a, of Policy_full_auto sample_env "''session-3''" 7]
    by (auto simp: b c new_engine_def)
qed

theorem model_selection_witness:
  "\<exists>s'. step sample_env ''session-3'' (SelectModel ''o3'' 7) model_open = Some s'
      \<and> loading s' = False
      \<and> model s' = ''o3''
      \<and> overlayMode s' = Overlay_none
      \<and> items s' = [notice ''switch-model'' 7 ''Switched model to o3'']
      \<and> map_option al_model (agentRef s') = Some ''o3''
      \<and> filter (\<lambda>c. \<not> spawn_call c) (calls s')
          = [AgentLoop_new (new_engine ''session-1'' sample_mount),
             AgentLoop_cancel ''session-1'',
             SaveConfig (sample_config\<lparr>cfg_model := ''o3''\<rparr>),
             AgentLoop_terminate ''session-1'',
             AgentLoop_new (new_engine ''session-3'' s')]"
proof -
  have a: "overlayMode model_open = Overlay_model"
    by (simp add: model_open_eq)
  have b: "agentRef model_open = Some (new_engine ''session-1'' sample_mount)"
    by (simp add: model_open_eq sample_mount_eq new_engine_def sample_config_def)
  have c: "''o3'' \<noteq> model model_open \<and> agentCleanup model_open
           \<and> confirmationPrompt model_open = None"
    by (simp add: model_open_eq sample_mount_eq)
  have d: "calls model_open = [AgentLoop_new (new_engine ''session-1'' sample_mount)]"
    "items model_open = []" "config model_open = sample_config"
    by (simp_all add: model_open_eq sample_mount_eq new_engine_def sample_config_def)
  show ?thesis
    using model_selection_interrupts [OF a b, of sample_env "''session-3''" "''o3''" 7] c
    by (auto simp: d new_engine_def)
qed

section \<open>The thinking timer\<close>

lemma handler_timer_frame:
  "a \<noteq> Tick \<Longrightarrow> thinkingSeconds (handler a s) = thinkingSeconds s"
  "a \<noteq> Tick \<Longrightarrow> handle (handler a s) = handle s"
  by (cases a; simp add: handler_defs Let_def split: option.splits sum.splits)+

lemma tick_frame:
  "loading (tick s) = loading s"
  "confirmationPrompt (tick s) = confirmationPrompt s"
  "handle (tick s) = handle s"
  "thinkingSeconds (tick s) = (if handle s then thinkingSeconds s + 1 else thinkingSeconds s)"
  by (simp_all add: tick_def)

lemma busy_commit [simp]: "busy (commit e u old new) = busy new"
  by (simp add: busy_def)

lemma timer_deps_busy: "timer_deps old = timer_deps new \<Longrightarrow> busy old = busy new"
  by (simp add: timer_deps_def busy_def)

lemma timer_ok_mount: "timer_ok (mount e u cfg policy roots)"
  by (simp add: timer_ok_def busy_def mount_def initial_def)

lemma timer_ok_step:
  assumes "timer_ok s" and "step e u a s = Some s'"
  shows "timer_ok s'"
proof -
  have s': "s' = commit e u s (handler a s)" and av: "available a s"
    using assms(2) by (simp_all add: step_Some)
  show ?thesis
  proof (cases "timer_deps s = timer_deps (handler a s)")
    case False
    then show ?thesis
      by (simp add: s' timer_ok_def commit_handle commit_thinkingSeconds busy_def)
  next
    case True
    note same = timer_deps_busy [OF True]
    show ?thesis
    proof (cases "a = Tick")
      case True
      then show ?thesis
        using assms(1) av same
        by (simp add: s' timer_ok_def commit_handle commit_thinkingSeconds tick_frame
              \<open>timer_deps s = timer_deps (handler a s)\<close>)
    next
      case False
      then show ?thesis
        using assms(1) same
        by (simp add: s' timer_ok_def commit_handle commit_thinkingSeconds handler_timer_frame
              \<open>timer_deps s = timer_deps (handler a s)\<close>)
    qed
  qed
qed

lemma timer_ok_run:
  "timer_ok s \<Longrightarrow> run e evs s = Some s' \<Longrightarrow> timer_ok s'"
proof (induction evs arbitrary: s)
  case Nil
  then show ?case by simp
next
  case (Cons ev evs)
  obtain u a where ev: "ev = (u, a)"
    by (cases ev)
  from Cons.prems(2) obtain s1 where s1: "step e u a s = Some s1" and rest: "run e evs s1 = Some s'"
    by (auto simp: ev split: option.splits)
  from timer_ok_step [OF Cons.prems(1) s1] Cons.IH rest show ?case
    by blast
qed

lemma thinkingSeconds_step:
  assumes "timer_ok s" and "step e u a s = Some s'" and "busy s'"
  shows "thinkingSeconds s' =
           (if busy s then (if a = Tick then thinkingSeconds s + 1 else thinkingSeconds s) else 0)"
proof -
  have s': "s' = commit e u s (handler a s)" and av: "available a s"
    using assms(2) by (simp_all add: step_Some)
  have ok': "timer_ok s'"
    by (rule timer_ok_step [OF assms(1,2)])
  show ?thesis
  proof (cases "timer_deps s = timer_deps (handler a s)")
    case False
    then have "busy s \<noteq> busy (handler a s) \<or> \<not> busy (handler a s)"
      by (auto simp: timer_deps_def busy_def)
    moreover have "busy (handler a s)"
      using assms(3) by (simp add: s')
    ultimately have "\<not> busy s"
      by blast
    then show ?thesis
      using False by (simp add: s' commit_thinkingSeconds)
  next
    case True
    have b: "busy s"
      using assms(3) timer_deps_busy [OF True] by (simp add: s')
    then have h: "handle s"
      using assms(1) by (simp add: timer_ok_def)
    show ?thesis
    proof (cases "a = Tick")
      case True
      then show ?thesis
        using b h \<open>timer_deps s = timer_deps (handler a s)\<close>
        by (simp add: s' commit_thinkingSeconds tick_frame)
    next
      case False
      then show ?thesis
        using b \<open>timer_deps s = timer_deps (handler a s)\<close>
        by (simp add: s' commit_thinkingSeconds handler_timer_frame)
    qed
  qed
qed

text \<open>
  Claim C5, as the code has it. Time is the sequence of callbacks of the one-second interval
  (\<open>Tick\<close>). The counter is reset by an effect, which runs after the render that follows an
  event, so two states are told apart: the state that this render shows (\<open>rendered\<close>) and the
  state that the render and its effects leave (\<open>step\<close>). In every state that a render and
  its effects leave, reached from the first render, the counter is zero if loading is false
  or a confirmation is pending. While loading is true and no confirmation is pending the
  interval is live: its callback can run, and it adds exactly one to the counter. An event
  that enters that condition leaves the counter at zero, and any other event that stays in
  it leaves the counter as it is. The render that follows an event shows the count of before
  the event (plus one after a callback of the interval), also when the event has made
  loading false or has made a confirmation pending: the count is not yet zero there.
\<close>

theorem thinkingSeconds_timer:
  assumes "run e evs (mount e u0 cfg policy roots) = Some s"
  shows
    "(\<not> loading s \<or> confirmationPrompt s \<noteq> None \<longrightarrow> thinkingSeconds s = 0)
     \<and> (loading s \<and> confirmationPrompt s = None \<longrightarrow>
          (\<exists>s'. step e u Tick s = Some s' \<and> thinkingSeconds s' = thinkingSeconds s + 1
                \<and> loading s' \<and> confirmationPrompt s' = None))
     \<and> (\<forall>a s'. step e u a s = Some s' \<and> loading s' \<and> confirmationPrompt s' = None \<longrightarrow>
          thinkingSeconds s' =
            (if loading s \<and> confirmationPrompt s = None
             then (if a = Tick then thinkingSeconds s + 1 else thinkingSeconds s)
             else 0))
     \<and> (\<forall>a. available a s \<longrightarrow>
          thinkingSeconds (rendered a s) =
            (if a = Tick then thinkingSeconds s + 1 else thinkingSeconds s))"
proof -
  have ok: "timer_ok s"
    by (rule timer_ok_run [OF timer_ok_mount assms])
  have idle: "\<not> loading s \<or> confirmationPrompt s \<noteq> None \<longrightarrow> thinkingSeconds s = 0"
    using ok by (auto simp: timer_ok_def busy_def)
  have ticking: "loading s \<and> confirmationPrompt s = None \<longrightarrow>
          (\<exists>s'. step e u Tick s = Some s' \<and> thinkingSeconds s' = thinkingSeconds s + 1
                \<and> loading s' \<and> confirmationPrompt s' = None)"
  proof
    assume b: "loading s \<and> confirmationPrompt s = None"
    then have h: "handle s"
      using ok by (simp add: timer_ok_def busy_def)
    then have st: "step e u Tick s = Some (commit e u s (tick s))"
      by (simp add: step_def)
    have b': "busy (commit e u s (tick s))"
      using b by (simp add: busy_def tick_frame)
    from thinkingSeconds_step [OF ok st b'] b
    have "thinkingSeconds (commit e u s (tick s)) = thinkingSeconds s + 1"
      by (simp add: busy_def)
    then show "\<exists>s'. step e u Tick s = Some s' \<and> thinkingSeconds s' = thinkingSeconds s + 1
                \<and> loading s' \<and> confirmationPrompt s' = None"
      using st b by (simp add: tick_frame)
  qed
  have events: "\<forall>a s'. step e u a s = Some s' \<and> loading s' \<and> confirmationPrompt s' = None \<longrightarrow>
          thinkingSeconds s' =
            (if loading s \<and> confirmationPrompt s = None
             then (if a = Tick then thinkingSeconds s + 1 else thinkingSeconds s)
             else 0)"
  proof (intro allI impI)
    fix a s'
    assume h: "step e u a s = Some s' \<and> loading s' \<and> confirmationPrompt s' = None"
    then have st: "step e u a s = Some s'" and b': "busy s'"
      by (simp_all add: busy_def)
    show "thinkingSeconds s' =
            (if loading s \<and> confirmationPrompt s = None
             then (if a = Tick then thinkingSeconds s + 1 else thinkingSeconds s)
             else 0)"
      using thinkingSeconds_step [OF ok st b'] unfolding busy_def .
  qed
  have shown: "\<forall>a. available a s \<longrightarrow>
          thinkingSeconds (rendered a s) =
            (if a = Tick then thinkingSeconds s + 1 else thinkingSeconds s)"
  proof (intro allI impI)
    fix a
    assume av: "available a s"
    show "thinkingSeconds (rendered a s) =
            (if a = Tick then thinkingSeconds s + 1 else thinkingSeconds s)"
    proof (cases "a = Tick")
      case True
      then show ?thesis
        using av by (simp add: rendered_def tick_frame)
    next
      case False
      then show ?thesis
        by (simp add: rendered_def handler_timer_frame)
    qed
  qed
  show ?thesis
    using idle ticking events shown by (intro conjI)
qed

lemma run_the: "run e evs s \<noteq> None \<Longrightarrow> run e evs s = Some (the (run e evs s))"
  by auto

lemma busy_run_runs: "run sample_env busy_run sample_mount \<noteq> None"
  by code_simp

lemma busy_state_busy:
  "loading busy_state" "confirmationPrompt busy_state = None" "thinkingSeconds busy_state = 2"
  by code_simp+

lemma busy_state_available:
  "available (OnLoading False) busy_state" "available (Ask sample_prompt) busy_state"
  by code_simp+

theorem thinkingSeconds_timer_witness:
  "thinkingSeconds sample_mount = 0
   \<and> (\<exists>s'. step sample_env ''session-6'' Tick busy_state = Some s'
          \<and> thinkingSeconds s' = 3 \<and> loading s' \<and> confirmationPrompt s' = None)
   \<and> thinkingSeconds (rendered (OnLoading False) busy_state) = 2
   \<and> thinkingSeconds (rendered (Ask sample_prompt) busy_state) = 2"
proof -
  have a: "run sample_env [] (mount sample_env ''session-1'' sample_config Policy_suggest [])
           = Some sample_mount"
    by (simp add: sample_mount_def)
  have b: "run sample_env busy_run (mount sample_env ''session-1'' sample_config Policy_suggest [])
           = Some busy_state"
    using run_the [OF busy_run_runs] by (simp add: busy_state_def sample_mount_def)
  have c: "\<not> loading sample_mount"
    by (simp add: sample_mount_eq)
  show ?thesis
    using thinkingSeconds_timer [OF a, of "''session-6''"]
          thinkingSeconds_timer [OF b, of "''session-6''"]
    by (simp add: busy_state_busy busy_state_available c)
qed

text \<open>
  The claim as stated fails at the render between an event and the reset. The sample state
  is reached from the first render; loading is true there, no confirmation is pending, and
  the counter is at 2. The render after the engine has reported the end of loading shows
  loading false with the counter still at 2, and the render after a request for
  confirmation shows the pending prompt with the counter still at 2. The effects that follow
  these renders set the counter to zero.
\<close>

theorem thinkingSeconds_shown_before_reset:
  "run sample_env busy_run (mount sample_env ''session-1'' sample_config Policy_suggest [])
     = Some busy_state
   \<and> loading busy_state \<and> confirmationPrompt busy_state = None \<and> thinkingSeconds busy_state = 2
   \<and> available (OnLoading False) busy_state
   \<and> \<not> loading (rendered (OnLoading False) busy_state)
   \<and> thinkingSeconds (rendered (OnLoading False) busy_state) = 2
   \<and> map_option thinkingSeconds (step sample_env ''session-6'' (OnLoading False) busy_state)
       = Some 0
   \<and> available (Ask sample_prompt) busy_state
   \<and> confirmationPrompt (rendered (Ask sample_prompt) busy_state) = Some sample_prompt
   \<and> thinkingSeconds (rendered (Ask sample_prompt) busy_state) = 2
   \<and> map_option thinkingSeconds (step sample_env ''session-6'' (Ask sample_prompt) busy_state)
       = Some 0"
  by code_simp

section \<open>The notification gate\<close>

lemma handler_notify_frame:
  "prevLoadingRef (handler a s) = prevLoadingRef s"
  "filter spawn_call (calls (handler a s)) = filter spawn_call (calls s)"
  by (cases a; simp add: handler_defs Let_def split: option.splits sum.splits)+

lemma prev_ok_mount: "prevLoadingRef (mount e u cfg policy roots) = loading (mount e u cfg policy roots)"
  by (simp add: mount_def)

lemma prev_ok_step:
  assumes "prevLoadingRef s = loading s" and "step e u a s = Some s'"
  shows "prevLoadingRef s' = loading s'"
proof -
  have s': "s' = commit e u s (handler a s)"
    using assms(2) by (simp add: step_Some)
  show ?thesis
  proof (cases "notify_deps s = notify_deps (handler a s)")
    case True
    then have "loading (handler a s) = loading s"
      by (simp add: notify_deps_def)
    then show ?thesis
      using True assms(1) by (simp add: s' commit_prevLoadingRef handler_notify_frame)
  next
    case False
    then show ?thesis
      by (simp add: s' commit_prevLoadingRef)
  qed
qed

lemma prev_ok_run:
  "prevLoadingRef s = loading s \<Longrightarrow> run e evs s = Some s' \<Longrightarrow> prevLoadingRef s' = loading s'"
proof (induction evs arbitrary: s)
  case Nil
  then show ?case by simp
next
  case (Cons ev evs)
  obtain u a where ev: "ev = (u, a)"
    by (cases ev)
  from Cons.prems(2) obtain s1 where s1: "step e u a s = Some s1" and rest: "run e evs s1 = Some s'"
    by (auto simp: ev split: option.splits)
  from prev_ok_step [OF Cons.prems(1) s1] Cons.IH rest show ?case
    by blast
qed

lemma spawn_call_notification [simp]: "spawn_call (notification e transcript)"
  by (simp add: notification_def)

lemma filter_spawn_call_render [simp]:
  "filter spawn_call (teardown_calls old new) = []"
  "filter spawn_call (construction_calls u old new) = []"
  "filter spawn_call (notification_calls e old new) = notification_calls e old new"
proof -
  show "filter spawn_call (teardown_calls old new) = []"
    using teardown_calls_cases [of old new] by (elim disjE exE conjE) simp_all
  show "filter spawn_call (construction_calls u old new) = []"
    by (simp add: construction_calls_def)
  show "filter spawn_call (notification_calls e old new) = notification_calls e old new"
    by (simp add: notification_calls_def notification_def)
qed

lemma notification_due_commit [simp]:
  "notification_due e b (commit e' u old new) = notification_due e b new"
  by (simp add: notification_due_def)

lemma notification_due_deps:
  "notification_due e (loading old) new \<Longrightarrow> notify_deps old \<noteq> notify_deps new"
  by (auto simp: notification_due_def notify_deps_def)

lemma spawn_calls_step:
  assumes "prevLoadingRef s = loading s" and "step e u a s = Some s'"
  shows "filter spawn_call (calls s') =
           filter spawn_call (calls s) @
           (if notification_due e (loading s) s' then [notification e (items s')] else [])"
proof -
  have s': "s' = commit e u s (handler a s)"
    using assms(2) by (simp add: step_Some)
  have "notification_calls e s (handler a s) =
          (if notification_due e (loading s) (handler a s)
           then [notification e (items (handler a s))] else [])"
    using assms(1) notification_due_deps [of e s "handler a s"]
    by (auto simp: notification_calls_def handler_notify_frame)
  then show ?thesis
    by (simp add: s' commit_calls handler_notify_frame)
qed

lemma notifyEffect_again: "prevLoadingRef s = loading s \<Longrightarrow> notifyEffect e s = s"
  by (cases "loading s") (simp_all add: notifyEffect_def)

lemma preview_of_length: "length (preview_of text) = min 100 (length text)"
  by (simp add: preview_of_def min.commute)

lemma preview_of_nth:
  "i < length (preview_of text) \<Longrightarrow>
     preview_of text ! i = (if text ! i = 0x0A then 0x20 else text ! i)"
  by (simp add: preview_of_def)

lemma preview_of_flat: "0x0A \<notin> set (preview_of text)"
proof
  assume "0x0A \<in> set (preview_of text)"
  then have "0x0A \<in> set (map (\<lambda>c. if c = 0x0A then 0x20 else c) text)"
    unfolding preview_of_def by (rule in_set_takeD)
  then show False
    by (auto split: if_splits)
qed

text \<open>
  Sixty letters outside ASCII (here U+00E9, one code unit each) are kept whole: the cut
  counts code units, not the bytes of an encoding.
\<close>

lemma preview_of_sixty_letters: "preview_of (replicate 60 0xE9) = replicate 60 0xE9"
  by (simp add: preview_of_def)

lemma safePreview_of_Nil: "safePreview_of [] = []"
  by (simp add: safePreview_of_def)

lemma safePreview_of_Cons:
  "safePreview_of (c # cs) = (if c = 0x22 then [0x5C, 0x22] else [c]) @ safePreview_of cs"
  by (simp add: safePreview_of_def backslash_def dquote_def)

lemma safePreview_of_escaped:
  "i < length (safePreview_of p) \<Longrightarrow> safePreview_of p ! i = 0x22
     \<Longrightarrow> 0 < i \<and> safePreview_of p ! (i - 1) = 0x5C"
proof (induction p arbitrary: i)
  case Nil
  then show ?case
    by (simp add: safePreview_of_def)
next
  case (Cons c cs)
  show ?case
  proof (cases "c = 0x22")
    case True
    then have eq: "safePreview_of (c # cs) = 0x5C # 0x22 # safePreview_of cs"
      by (simp add: safePreview_of_Cons)
    consider "i = 0" | "i = Suc 0" | j where "i = Suc (Suc j)"
      by (cases i rule: nat.exhaust; cases "i - 1" rule: nat.exhaust) auto
    then show ?thesis
    proof cases
      case 1
      then show ?thesis
        using Cons.prems(2) unfolding eq by simp
    next
      case 2
      then show ?thesis
        unfolding eq by simp
    next
      case (3 j)
      from Cons.prems have "j < length (safePreview_of cs)" "safePreview_of cs ! j = 0x22"
        unfolding eq 3 by simp_all
      from Cons.IH [OF this] show ?thesis
        unfolding eq 3 by (cases j) simp_all
    qed
  next
    case False
    then have eq: "safePreview_of (c # cs) = c # safePreview_of cs"
      by (simp add: safePreview_of_Cons)
    show ?thesis
    proof (cases i)
      case 0
      then show ?thesis
        using Cons.prems False unfolding eq by simp
    next
      case (Suc j)
      from Cons.prems have "j < length (safePreview_of cs)" "safePreview_of cs ! j = 0x22"
        unfolding eq Suc by simp_all
      from Cons.IH [OF this] show ?thesis
        unfolding eq Suc by (cases j) simp_all
    qed
  qed
qed

lemma last_filter_split:
  "filter P xs \<noteq> [] \<Longrightarrow>
     \<exists>pre post. xs = pre @ last (filter P xs) # post \<and> P (last (filter P xs))
        \<and> (\<forall>x\<in>set post. \<not> P x)"
proof (induction xs rule: rev_induct)
  case Nil
  then show ?case by simp
next
  case (snoc x xs)
  show ?case
  proof (cases "P x")
    case True
    then have "x # [] = [x]" "last (filter P (xs @ [x])) = x"
      by simp_all
    then show ?thesis
      using True by (intro exI [of _ xs] exI [of _ "[]"]) simp
  next
    case False
    then have same: "filter P (xs @ [x]) = filter P xs"
      by simp
    with snoc.prems have "filter P xs \<noteq> []"
      by simp
    from snoc.IH [OF this] obtain pre post where
      "xs = pre @ last (filter P xs) # post" "P (last (filter P xs))" "\<forall>x\<in>set post. \<not> P x"
      by blast
    then show ?thesis
      using False unfolding same
      by (intro exI [of _ pre] exI [of _ "post @ [x]"]) simp
  qed
qed

text \<open>
  Claim C6, as the code has it. For every event in a state that the component reaches from
  its first render, the gate hands one notification to the notification process if
  notifications are enabled in the configuration, the platform is "darwin", loading was
  true before the event and is false after it, no confirmation is pending and the
  transcript holds an assistant item; otherwise it hands over none (in particular never
  from idle to idle and never while a confirmation is open). The notification is built from
  the most recent assistant item, under the title "Codex CLI" and with the working
  directory as subtitle. Its preview is the first 100 UTF-16 code units of the item's text
  (all of them if the text has fewer), each newline among them replaced by a space; in the
  script every double quote of the preview is preceded by a backslash and nothing else is
  changed.
\<close>

theorem notification_gate:
  assumes "run e evs (mount e u0 cfg policy roots) = Some s" and "step e u a s = Some s'"
  shows
    "filter spawn_call (calls s') =
       filter spawn_call (calls s) @
       (if cfg_notify (config s') \<and> loading s \<and> \<not> loading s' \<and> confirmationPrompt s' = None
           \<and> platform e = ''darwin'' \<and> filter (\<lambda>i. msg_role i = Assistant) (items s') \<noteq> []
        then [notification e (items s')] else [])
     \<and> (filter (\<lambda>i. msg_role i = Assistant) (items s') \<noteq> [] \<longrightarrow>
          (\<exists>pre m post.
             items s' = pre @ m # post \<and> msg_role m = Assistant
             \<and> (\<forall>x\<in>set post. msg_role x \<noteq> Assistant)
             \<and> notification e (items s') =
                 Spawn (units ''osascript'')
                   [units ''-e'',
                    notification_script (safePreview_of (preview_of (getTextContent e m)))
                      (units ''Codex CLI'') (PWD e)]))
     \<and> (\<forall>text. length (preview_of text) = min 100 (length text)
           \<and> (\<forall>i < length (preview_of text).
                 preview_of text ! i = (if text ! i = 0x0A then 0x20 else text ! i))
           \<and> 0x0A \<notin> set (preview_of text)
           \<and> (\<forall>i < length (safePreview_of (preview_of text)).
                 safePreview_of (preview_of text) ! i = 0x22 \<longrightarrow>
                 0 < i \<and> safePreview_of (preview_of text) ! (i - 1) = 0x5C))
     \<and> safePreview_of [] = []
     \<and> (\<forall>c cs. safePreview_of (c # cs) =
           (if c = 0x22 then [0x5C, 0x22] else [c]) @ safePreview_of cs)"
proof -
  have prev: "prevLoadingRef s = loading s"
    by (rule prev_ok_run [OF prev_ok_mount assms(1)])
  have count: "filter spawn_call (calls s') =
       filter spawn_call (calls s) @
       (if cfg_notify (config s') \<and> loading s \<and> \<not> loading s' \<and> confirmationPrompt s' = None
           \<and> platform e = ''darwin'' \<and> filter (\<lambda>i. msg_role i = Assistant) (items s') \<noteq> []
        then [notification e (items s')] else [])"
    using spawn_calls_step [OF prev assms(2)] unfolding notification_due_def .
  have content: "filter (\<lambda>i. msg_role i = Assistant) (items s') \<noteq> [] \<longrightarrow>
          (\<exists>pre m post.
             items s' = pre @ m # post \<and> msg_role m = Assistant
             \<and> (\<forall>x\<in>set post. msg_role x \<noteq> Assistant)
             \<and> notification e (items s') =
                 Spawn (units ''osascript'')
                   [units ''-e'',
                    notification_script (safePreview_of (preview_of (getTextContent e m)))
                      (units ''Codex CLI'') (PWD e)])"
  proof
    assume "filter (\<lambda>i. msg_role i = Assistant) (items s') \<noteq> []"
    from last_filter_split [OF this] obtain pre post where
      "items s' = pre @ last (filter (\<lambda>i. msg_role i = Assistant) (items s')) # post"
      "msg_role (last (filter (\<lambda>i. msg_role i = Assistant) (items s'))) = Assistant"
      "\<forall>x\<in>set post. msg_role x \<noteq> Assistant"
      by blast
    then show "(\<exists>pre m post.
             items s' = pre @ m # post \<and> msg_role m = Assistant
             \<and> (\<forall>x\<in>set post. msg_role x \<noteq> Assistant)
             \<and> notification e (items s') =
                 Spawn (units ''osascript'')
                   [units ''-e'',
                    notification_script (safePreview_of (preview_of (getTextContent e m)))
                      (units ''Codex CLI'') (PWD e)])"
      by (intro exI [of _ pre] exI [of _ post]
            exI [of _ "last (filter (\<lambda>i. msg_role i = Assistant) (items s'))"])
         (simp add: notification_def)
  qed
  have cut: "\<forall>text. length (preview_of text) = min 100 (length text)
           \<and> (\<forall>i < length (preview_of text).
                 preview_of text ! i = (if text ! i = 0x0A then 0x20 else text ! i))
           \<and> 0x0A \<notin> set (preview_of text)
           \<and> (\<forall>i < length (safePreview_of (preview_of text)).
                 safePreview_of (preview_of text) ! i = 0x22 \<longrightarrow>
                 0 < i \<and> safePreview_of (preview_of text) ! (i - 1) = 0x5C)"
    using preview_of_length preview_of_nth preview_of_flat safePreview_of_escaped by blast
  have escape: "\<forall>c cs. safePreview_of (c # cs) =
           (if c = 0x22 then [0x5C, 0x22] else [c]) @ safePreview_of cs"
    using safePreview_of_Cons by blast
  show ?thesis
    using count content cut safePreview_of_Nil escape by (intro conjI)
qed

lemma answered_run_runs: "run sample_env answered_run sample_mount \<noteq> None"
  by code_simp

lemma answered_state_fields:
  "loading answered_state" "confirmationPrompt answered_state = None"
  "config answered_state = sample_config"
  "items answered_state = [message User ''clean the build'', message Assistant quoted_reply]"
  "filter spawn_call (calls answered_state) = []"
  by code_simp+

theorem notification_gate_witness:
  "filter spawn_call (calls (the (step sample_env ''session-5'' (OnLoading False) answered_state)))
     = [Spawn (units ''osascript'')
          [units ''-e'',
           units ''display notification '' @ dquote
           @ units ''Done. Say '' @ backslash @ dquote @ units ''hi'' @ backslash @ dquote
           @ replicate 86 0x78 @ dquote
           @ units '' with title '' @ dquote @ units ''Codex CLI'' @ dquote
           @ units '' subtitle '' @ dquote @ units ''~/project'' @ dquote
           @ units '' sound name '' @ dquote @ units ''Ping'' @ dquote]]
   \<and> length (units quoted_reply) = 134
   \<and> length (preview_of (units quoted_reply)) = 100"
proof -
  let ?s' = "the (step sample_env ''session-5'' (OnLoading False) answered_state)"
  have a: "run sample_env answered_run (mount sample_env ''session-1'' sample_config Policy_suggest [])
           = Some answered_state"
    using run_the [OF answered_run_runs] by (simp add: answered_state_def sample_mount_def)
  have b: "step sample_env ''session-5'' (OnLoading False) answered_state = Some ?s'"
    by (rule step_the) simp
  have s': "\<not> loading ?s'" "confirmationPrompt ?s' = None" "config ?s' = sample_config"
    "items ?s' = [message User ''clean the build'', message Assistant quoted_reply]"
    by (simp_all add: step_def onLoading_def answered_state_fields)
  have n: "notification sample_env [message User ''clean the build'', message Assistant quoted_reply]
     = Spawn (units ''osascript'')
          [units ''-e'',
           units ''display notification '' @ dquote
           @ units ''Done. Say '' @ backslash @ dquote @ units ''hi'' @ backslash @ dquote
           @ replicate 86 0x78 @ dquote
           @ units '' with title '' @ dquote @ units ''Codex CLI'' @ dquote
           @ units '' subtitle '' @ dquote @ units ''~/project'' @ dquote
           @ units '' sound name '' @ dquote @ units ''Ping'' @ dquote]"
    by code_simp
  have c: "cfg_notify sample_config" "platform sample_env = ''darwin''"
    "filter (\<lambda>i. msg_role i = Assistant)
       [message User ''clean the build'', message Assistant quoted_reply] \<noteq> []"
    by (simp_all add: sample_config_def sample_env_def message_def)
  have l: "length (units quoted_reply) = 134"
    by (simp add: units_def quoted_reply_def newline_def)
  note gate = notification_gate [OF a b]
  from gate
  have "filter spawn_call (calls ?s') =
       filter spawn_call (calls answered_state) @
       (if cfg_notify (config ?s') \<and> loading answered_state \<and> \<not> loading ?s'
           \<and> confirmationPrompt ?s' = None
           \<and> platform sample_env = ''darwin''
           \<and> filter (\<lambda>i. msg_role i = Assistant) (items ?s') \<noteq> []
        then [notification sample_env (items ?s')] else [])"
    by (rule conjunct1)
  then have first: "filter spawn_call (calls ?s') = [Spawn (units ''osascript'')
          [units ''-e'',
           units ''display notification '' @ dquote
           @ units ''Done. Say '' @ backslash @ dquote @ units ''hi'' @ backslash @ dquote
           @ replicate 86 0x78 @ dquote
           @ units '' with title '' @ dquote @ units ''Codex CLI'' @ dquote
           @ units '' subtitle '' @ dquote @ units ''~/project'' @ dquote
           @ units '' sound name '' @ dquote @ units ''Ping'' @ dquote]]"
    unfolding s' answered_state_fields n using c s' answered_state_fields by simp
  from gate have "length (preview_of (units quoted_reply)) = min 100 (length (units quoted_reply))"
    by blast
  then have cut: "length (preview_of (units quoted_reply)) = 100"
    by (simp add: l)
  show ?thesis
    using first l cut by (intro conjI)
qed

text \<open>
  The claim as stated fails where the transcript is not empty but holds no assistant item:
  with notifications enabled on "darwin", the engine goes from busy to idle after the user's
  request, no confirmation is pending, and nothing is handed over.
\<close>

theorem no_notification_without_assistant_item:
  "map_option (\<lambda>s. (loading s, confirmationPrompt s, items s))
       (run sample_env unanswered_run sample_mount)
     = Some (True, None, [message User ''clean the build''])
   \<and> map_option (\<lambda>s. (loading s, confirmationPrompt s, items s, filter spawn_call (calls s)))
       (run sample_env (unanswered_run @ [(''session-4'', OnLoading False)]) sample_mount)
     = Some (False, None, [message User ''clean the build''], [])
   \<and> cfg_notify sample_config \<and> platform sample_env = ''darwin''"
  by code_simp

section \<open>The engine's lifecycle\<close>

lemma handler_engine_frame:
  "agentCleanup (handler a s) = agentCleanup s"
  "(agentRef (handler a s) = None) = (agentRef s = None)"
  by (cases a; simp add: handler_defs Let_def split: option.splits sum.splits)+

lemma handler_confirmationPrompt:
  "a \<noteq> Answer \<Longrightarrow> \<forall>p. a \<noteq> Ask p \<Longrightarrow> confirmationPrompt (handler a s) = confirmationPrompt s"
  by (cases a; simp add: handler_defs Let_def split: option.splits sum.splits)

lemma engine_ok_mount: "engine_ok (mount e u cfg policy roots)"
  by (simp add: engine_ok_def mount_def initial_def)

lemma engine_ok_step:
  assumes "engine_ok s" and "step e u a s = Some s'"
  shows "engine_ok s'"
proof -
  have s': "s' = commit e u s (handler a s)"
    using assms(2) by (simp add: step_Some)
  have h: "agentCleanup (handler a s) = (agentRef (handler a s) \<noteq> None)"
    using assms(1) by (simp add: engine_ok_def handler_engine_frame)
  show ?thesis
    using h by (simp add: s' engine_ok_def commit_agentRef commit_agentCleanup)
qed

lemma engine_ok_run: "engine_ok s \<Longrightarrow> run e evs s = Some s' \<Longrightarrow> engine_ok s'"
proof (induction evs arbitrary: s)
  case Nil
  then show ?case by simp
next
  case (Cons ev evs)
  obtain u a where ev: "ev = (u, a)"
    by (cases ev)
  from Cons.prems(2) obtain s1 where s1: "step e u a s = Some s1" and rest: "run e evs s1 = Some s'"
    by (auto simp: ev split: option.splits)
  from engine_ok_step [OF Cons.prems(1) s1] Cons.IH rest show ?case
    by blast
qed

lemma new_engine_commit [simp]: "new_engine u (commit e u' old new) = new_engine u new"
  by (simp add: new_engine_def)

lemma agent_deps_commit [simp]: "agent_deps (commit e u old new) = agent_deps new"
  by (simp add: agent_deps_def)

text \<open>
  The first half of claim C1 holds: when an event changes the identity (model, config,
  writable roots) and no confirmation is pending, the engine that exists is terminated, and
  right after that an engine for the new identity is constructed and becomes the live one.
\<close>

lemma identity_change_without_confirmation:
  assumes "step e u a s = Some s'" and "agent_deps s' \<noteq> agent_deps s"
    and "confirmationPrompt s' = None"
  shows "agentRef s' = Some (new_engine u s')"
    and "al_model (new_engine u s') = model s' \<and> al_config (new_engine u s') = config s'
         \<and> al_additionalWritableRoots (new_engine u s') = additionalWritableRoots s'"
    and "filter engine_call (calls s') =
           filter engine_call (calls (handler a s))
           @ (case agentRef (handler a s) of
                None \<Rightarrow> []
              | Some old \<Rightarrow> [AgentLoop_terminate (al_sessionId old)])
           @ [AgentLoop_new (new_engine u s')]"
proof -
  have s': "s' = commit e u s (handler a s)"
    using assms(1) by (simp add: step_Some)
  have deps: "agent_deps s \<noteq> agent_deps (handler a s)"
    using assms(2) by (auto simp: s')
  have none: "confirmationPrompt (handler a s) = None"
    using assms(3) by (simp add: s')
  show "agentRef s' = Some (new_engine u s')"
    using deps none by (simp add: s' commit_agentRef)
  show "al_model (new_engine u s') = model s' \<and> al_config (new_engine u s') = config s'
         \<and> al_additionalWritableRoots (new_engine u s') = additionalWritableRoots s'"
    by (simp add: new_engine_def)
  have "teardown_calls s (handler a s) =
          (case agentRef (handler a s) of
             None \<Rightarrow> [] | Some old \<Rightarrow> [AgentLoop_terminate (al_sessionId old)])"
    using deps none by (simp add: teardown_calls_def)
  moreover have "construction_calls u s (handler a s) = [AgentLoop_new (new_engine u (handler a s))]"
    using deps none by (simp add: construction_calls_def)
  ultimately show "filter engine_call (calls s') =
           filter engine_call (calls (handler a s))
           @ (case agentRef (handler a s) of
                None \<Rightarrow> []
              | Some old \<Rightarrow> [AgentLoop_terminate (al_sessionId old)])
           @ [AgentLoop_new (new_engine u s')]"
    by (simp add: s' commit_calls split: option.splits)
qed

text \<open>
  The second half does not hold. When the identity changes while a confirmation is pending,
  React first runs the cleanup function that the previous run of the effect returned: the
  live engine is terminated and its handle cleared. Then the effect body returns at its
  guard, so that no engine is constructed.
\<close>

lemma identity_change_during_confirmation:
  assumes "engine_ok s" and "step e u a s = Some s'" and "agent_deps s' \<noteq> agent_deps s"
    and "confirmationPrompt s' \<noteq> None"
  shows "agentRef s' = None" and "\<not> agentCleanup s'"
    and "filter engine_call (calls s') =
           filter engine_call (calls (handler a s))
           @ (case agentRef (handler a s) of
                None \<Rightarrow> []
              | Some old \<Rightarrow> [AgentLoop_terminate (al_sessionId old)])"
proof -
  have s': "s' = commit e u s (handler a s)"
    using assms(2) by (simp add: step_Some)
  have deps: "agent_deps s \<noteq> agent_deps (handler a s)"
    using assms(3) by (auto simp: s')
  have some: "confirmationPrompt (handler a s) \<noteq> None"
    using assms(4) by (simp add: s')
  have h: "agentCleanup (handler a s) = (agentRef (handler a s) \<noteq> None)"
    using assms(1) by (simp add: engine_ok_def handler_engine_frame)
  show "agentRef s' = None"
    using deps some h by (simp add: s' commit_agentRef)
  show "\<not> agentCleanup s'"
    using deps some by (simp add: s' commit_agentCleanup)
  have "teardown_calls s (handler a s) =
          (case agentRef (handler a s) of
             None \<Rightarrow> [] | Some old \<Rightarrow> [AgentLoop_terminate (al_sessionId old)])"
    using deps some h by (cases "agentRef (handler a s)") (simp_all add: teardown_calls_def)
  moreover have "construction_calls u s (handler a s) = []"
    using some by (simp add: construction_calls_def)
  ultimately show "filter engine_call (calls s') =
           filter engine_call (calls (handler a s))
           @ (case agentRef (handler a s) of
                None \<Rightarrow> []
              | Some old \<Rightarrow> [AgentLoop_terminate (al_sessionId old)])"
    by (simp add: s' commit_calls split: option.splits)
qed

text \<open>
  After that nothing brings an engine back. The question can only be answered on the input
  surface, which is rendered only with an engine; while the question is pending the effect
  body returns at its guard on every change of identity; and the effect does not depend on
  the pending question, so it would not run when the question went away.
\<close>

lemma no_engine_step:
  assumes "confirmationPrompt s \<noteq> None" and "agentRef s = None" and "\<not> agentCleanup s"
    and "step e u a s = Some s'"
  shows "confirmationPrompt s' \<noteq> None \<and> agentRef s' = None \<and> \<not> agentCleanup s'"
proof -
  have s': "s' = commit e u s (handler a s)" and av: "available a s"
    using assms(4) by (simp_all add: step_Some)
  have "a \<noteq> Answer" "\<forall>p. a \<noteq> Ask p"
    using av assms(1,2) by (auto simp: input_rendered_def)
  then have p: "confirmationPrompt (handler a s) \<noteq> None"
    using assms(1) by (simp add: handler_confirmationPrompt)
  have r: "agentRef (handler a s) = None" "\<not> agentCleanup (handler a s)"
    using assms(2,3) by (simp_all add: handler_engine_frame)
  show ?thesis
    using p r by (auto simp: s' commit_agentRef commit_agentCleanup)
qed

lemma no_engine_run:
  "confirmationPrompt s \<noteq> None \<Longrightarrow> agentRef s = None \<Longrightarrow> \<not> agentCleanup s
     \<Longrightarrow> run e evs s = Some s'
     \<Longrightarrow> confirmationPrompt s' \<noteq> None \<and> agentRef s' = None \<and> \<not> agentCleanup s'"
proof (induction evs arbitrary: s)
  case Nil
  then show ?case by simp
next
  case (Cons ev evs)
  obtain u a where ev: "ev = (u, a)"
    by (cases ev)
  from Cons.prems(4) obtain s1 where s1: "step e u a s = Some s1" and rest: "run e evs s1 = Some s'"
    by (auto simp: ev split: option.splits)
  from no_engine_step [OF Cons.prems(1,2,3) s1] Cons.IH rest show ?case
    by blast
qed

text \<open>
  Every engine but the live one has been torn down: the number of constructions is the
  number of teardowns plus one while an engine is live, and equal to it otherwise. The
  unmount tears the live engine down.
\<close>

lemma handler_lifecycle_frame:
  "filter new_call (calls (handler a s)) = filter new_call (calls s)"
  "filter terminate_call (calls (handler a s)) = filter terminate_call (calls s)"
  by (cases a; simp add: handler_defs Let_def split: option.splits sum.splits)+

lemma render_lifecycle_counts:
  "length (filter new_call (teardown_calls old new)) = 0"
  "length (filter terminate_call (teardown_calls old new)) = length (teardown_calls old new)"
  "length (filter new_call (construction_calls u old new)) = length (construction_calls u old new)"
  "length (filter terminate_call (construction_calls u old new)) = 0"
  "length (filter new_call (notification_calls e old new)) = 0"
  "length (filter terminate_call (notification_calls e old new)) = 0"
proof -
  show "length (filter new_call (teardown_calls old new)) = 0"
    using teardown_calls_cases [of old new] by (elim disjE exE conjE) simp_all
  show "length (filter terminate_call (teardown_calls old new)) = length (teardown_calls old new)"
    using teardown_calls_cases [of old new] by (elim disjE exE conjE) simp_all
  show "length (filter new_call (construction_calls u old new)) = length (construction_calls u old new)"
    by (simp add: construction_calls_def)
  show "length (filter terminate_call (construction_calls u old new)) = 0"
    by (simp add: construction_calls_def)
  show "length (filter new_call (notification_calls e old new)) = 0"
    by (simp add: notification_calls_def notification_def)
  show "length (filter terminate_call (notification_calls e old new)) = 0"
    by (simp add: notification_calls_def notification_def)
qed

lemma balanced_mount: "balanced (mount e u cfg policy roots)"
  by (simp add: balanced_def constructed_def torn_down_def mount_def initial_def
        notification_due_def)

lemma balanced_step:
  assumes "balanced s" and "engine_ok s" and "step e u a s = Some s'"
  shows "balanced s'"
proof -
  let ?h = "handler a s"
  have s': "s' = commit e u s ?h"
    using assms(3) by (simp add: step_Some)
  have h: "agentCleanup ?h = (agentRef ?h \<noteq> None)"
    using assms(2) by (simp add: engine_ok_def handler_engine_frame)
  have b: "length (filter new_call (calls ?h)) =
           length (filter terminate_call (calls ?h)) + (if agentRef ?h = None then 0 else 1)"
    using assms(1)
    by (simp add: balanced_def constructed_def torn_down_def handler_lifecycle_frame
          handler_engine_frame)
  have counts: "constructed s' =
      length (filter new_call (calls ?h)) + length (construction_calls u s ?h)"
    "torn_down s' =
      length (filter terminate_call (calls ?h)) + length (teardown_calls s ?h)"
    by (simp_all add: s' constructed_def torn_down_def commit_calls render_lifecycle_counts)
  show ?thesis
  proof (cases "agent_deps s = agent_deps ?h")
    case True
    then show ?thesis
      using b unfolding balanced_def counts by (simp add: s' commit_agentRef)
  next
    case False
    show ?thesis
    proof (cases "confirmationPrompt ?h = None")
      case True
      have "length (teardown_calls s ?h) = (if agentRef ?h = None then 0 else 1)"
        using False True by (cases "agentRef ?h") (simp_all add: teardown_calls_def)
      moreover have "length (construction_calls u s ?h) = 1"
        using False True by (simp add: construction_calls_def)
      moreover have "agentRef s' \<noteq> None"
        using False True by (simp add: s' commit_agentRef)
      ultimately show ?thesis
        using b unfolding balanced_def counts by simp
    next
      case pending: False
      have "length (teardown_calls s ?h) = (if agentRef ?h = None then 0 else 1)"
        using False pending h by (cases "agentRef ?h") (simp_all add: teardown_calls_def)
      moreover have "length (construction_calls u s ?h) = 0"
        using pending by (simp add: construction_calls_def)
      moreover have "agentRef s' = None"
        using False pending h by (simp add: s' commit_agentRef)
      ultimately show ?thesis
        using b unfolding balanced_def counts by simp
    qed
  qed
qed

lemma balanced_run:
  "balanced s \<Longrightarrow> engine_ok s \<Longrightarrow> run e evs s = Some s' \<Longrightarrow> balanced s'"
proof (induction evs arbitrary: s)
  case Nil
  then show ?case by simp
next
  case (Cons ev evs)
  obtain u a where ev: "ev = (u, a)"
    by (cases ev)
  from Cons.prems(3) obtain s1 where s1: "step e u a s = Some s1" and rest: "run e evs s1 = Some s'"
    by (auto simp: ev split: option.splits)
  from balanced_step [OF Cons.prems(1,2) s1] engine_ok_step [OF Cons.prems(2) s1] Cons.IH rest
  show ?case
    by blast
qed

lemma teardown_count:
  assumes "run e evs (mount e u cfg policy roots) = Some s"
  shows "constructed s = torn_down s + (if agentRef s = None then 0 else 1)"
    and "constructed (unmount s) = torn_down (unmount s)"
    and "agentRef s \<noteq> None \<Longrightarrow> agentRef (unmount s) = None"
proof -
  have b: "balanced s"
    by (rule balanced_run [OF balanced_mount engine_ok_mount assms])
  have ok: "engine_ok s"
    by (rule engine_ok_run [OF engine_ok_mount assms])
  show "constructed s = torn_down s + (if agentRef s = None then 0 else 1)"
    using b by (simp add: balanced_def)
  show "constructed (unmount s) = torn_down (unmount s)"
    using b ok
    by (cases "agentRef s")
       (simp_all add: balanced_def engine_ok_def unmount_def constructed_def torn_down_def)
  show "agentRef s \<noteq> None \<Longrightarrow> agentRef (unmount s) = None"
    using ok by (simp add: engine_ok_def unmount_def)
qed

text \<open>
  Claim C1 at a concrete input. The engine of the first render runs the user's request, the
  person opens the model overlay, the engine asks for a confirmation, and the person
  selects the model "o3" while the question is pending. Before the selection the engine
  "session-1" is live; after it the question is still pending, the engine has been
  cancelled and terminated, there is no engine and none has been constructed. The person
  cannot answer any more, and a later change of the props constructs no engine either.
  The same happens without any overlay when the parent passes another configuration while
  the question is pending.
\<close>

theorem engine_torn_down_during_confirmation:
  "map_option engine_view (run sample_env confirmation_run sample_mount)
     = Some (Some sample_prompt, Some ''session-1'',
             [AgentLoop_new (new_engine ''session-1'' sample_mount),
              AgentLoop_run ''session-1'' [message User ''clean the build'']])
   \<and> map_option engine_view
         (run sample_env (confirmation_run @ [(''session-6'', SelectModel ''o3'' 7)]) sample_mount)
     = Some (Some sample_prompt, None,
             [AgentLoop_new (new_engine ''session-1'' sample_mount),
              AgentLoop_run ''session-1'' [message User ''clean the build''],
              AgentLoop_cancel ''session-1'',
              AgentLoop_terminate ''session-1''])
   \<and> run sample_env
         (confirmation_run @ [(''session-6'', SelectModel ''o3'' 7), (''session-7'', Answer)])
         sample_mount = None
   \<and> map_option engine_view
         (run sample_env
            (confirmation_run @
               [(''session-6'', SelectModel ''o3'' 7),
                (''session-7'', Props 1 (sample_config\<lparr>cfg_notify := False\<rparr>) 1 [''/tmp''])])
            sample_mount)
     = Some (Some sample_prompt, None,
             [AgentLoop_new (new_engine ''session-1'' sample_mount),
              AgentLoop_run ''session-1'' [message User ''clean the build''],
              AgentLoop_cancel ''session-1'',
              AgentLoop_terminate ''session-1''])
   \<and> map_option engine_view
         (run sample_env
            (asked_run @ [(''session-5'', Props 1 (sample_config\<lparr>cfg_model := ''o3''\<rparr>) 0 [])])
            sample_mount)
     = Some (Some sample_prompt, None,
             [AgentLoop_new (new_engine ''session-1'' sample_mount),
              AgentLoop_run ''session-1'' [message User ''clean the build''],
              AgentLoop_terminate ''session-1''])"
  by code_simp

end
